theory Spec2Isabelle
  imports Complex_Main "HOL-Library.AList"
begin

section \<open>Whole-pattern-fit model components (wp\_models.py)\<close>

text \<open>
  A shallow embedding of \<^verbatim>\<open>py4DSTEM/process/wholepatternfit/wp_models.py\<close>.

  \<^item> Python floats are modelled by \<open>real\<close> (and \<open>complex\<close>): rounding, overflow and
    non-finite values are outside the model. Where IEEE division by zero would give
    \<open>inf\<close> or \<open>nan\<close> while HOL gives \<open>0\<close>, the theorems carry a hypothesis that
    excludes the zero divisor.
  \<^item> A numpy array of the pattern's shape \<open>(Q_Nx, Q_Ny)\<close> is modelled by its entries,
    as a function of the pixel index \<open>(i, j)\<close>. Every array that takes part in one
    evaluation has the pattern's shape, so numpy's elementwise arithmetic is
    pointwise arithmetic and \<^verbatim>\<open>DP += a\<close> is \<open>\<lambda>p. DP p + a p\<close>.
  \<^item> The Jacobian buffer \<^verbatim>\<open>J\<close> has one row per pixel (\<^verbatim>\<open>ravel()\<close> order) and one
    column per offset; it is indexed here by the pixel and the column.
  \<^item> The flat parameter vector \<^verbatim>\<open>x\<close> is a list; an index outside it raises
    \<^verbatim>\<open>IndexError\<close>.
  \<^item> Every \<^verbatim>\<open>raise\<close> of the source is the \<open>Inl\<close> branch of a sum type.
\<close>

subsection \<open>Errors, arrays\<close>

datatype py_error =
  KeyError | IndexError | NameError | AttributeError | TypeError | NotImplementedError
  | ZeroDivisionError

type_synonym pixel = "nat \<times> nat"
type_synonym pattern = "pixel \<Rightarrow> real"
type_synonym jac = "pixel \<Rightarrow> nat \<Rightarrow> real"

definition bind_err :: "py_error + 'a \<Rightarrow> ('a \<Rightarrow> py_error + 'b) \<Rightarrow> py_error + 'b" where
  "bind_err m f = (case m of Inl e \<Rightarrow> Inl e | Inr v \<Rightarrow> f v)"

text \<open>\<^verbatim>\<open>np.zeros_like(DP)\<close>.\<close>

definition zeros :: pattern where
  "zeros = (\<lambda>p. 0)"

definition zerosJ :: jac where
  "zerosJ = (\<lambda>p c. 0)"

text \<open>\<^verbatim>\<open>DP += a\<close> for an array \<^verbatim>\<open>a\<close> of the pattern's shape.\<close>

definition iadd :: "pattern \<Rightarrow> pattern \<Rightarrow> pattern" where
  "iadd DP a = (\<lambda>p. DP p + a p)"

text \<open>\<^verbatim>\<open>J[:, c] += a.ravel()\<close>.\<close>

definition col_iadd :: "jac \<Rightarrow> nat \<Rightarrow> pattern \<Rightarrow> jac" where
  "col_iadd J c a = (\<lambda>p c'. if c' = c then J p c' + a p else J p c')"

subsection \<open>WPFModelType\<close>

datatype WPFModelType = BACKGROUND | AMORPHOUS | LATTICE | DUMMY | META

subsection \<open>Parameter\<close>

text \<open>
  Bounds are floats that may be \<^verbatim>\<open>-np.inf\<close> or \<^verbatim>\<open>np.inf\<close>. The offset is
  \<^verbatim>\<open>np.nan\<close> (here \<open>None\<close>) until the fitting driver sets it.
\<close>

datatype ext = MInf | Fin real | PInf

record Parameter =
  initial_value :: real
  lower_bound :: ext
  upper_bound :: ext
  offset :: "nat option"

text \<open>
  \<^verbatim>\<open>Parameter.set_params\<close> followed by the dummy offset: what \<^verbatim>\<open>__init__\<close> does with
  three scalars. \<open>None\<close> is Python's \<^verbatim>\<open>None\<close>.
\<close>

definition set_params :: "real \<Rightarrow> ext option \<Rightarrow> ext option \<Rightarrow> Parameter" where
  "set_params v lo hi =
     \<lparr> initial_value = v,
       lower_bound = (case lo of None \<Rightarrow> MInf | Some l \<Rightarrow> l),
       upper_bound = (case hi of None \<Rightarrow> PInf | Some h \<Rightarrow> h),
       offset = None \<rparr>"

text \<open>
  The first argument of \<^verbatim>\<open>Parameter(...)\<close> is a scalar or a sequence of floats. A
  sequence of length 2 is \<open>(value, tolerance)\<close>; any sequence is then unpacked into
  \<^verbatim>\<open>set_params(*initial_value)\<close>, which takes exactly three arguments.
\<close>

datatype init_arg = Scalar real | Seq "real list"

fun Parameter_init :: "init_arg \<Rightarrow> ext option \<Rightarrow> ext option \<Rightarrow> py_error + Parameter" where
  "Parameter_init (Scalar v) lo hi = Inr (set_params v lo hi)"
| "Parameter_init (Seq [v, t]) lo hi = Inr (set_params v (Some (Fin (v - t))) (Some (Fin (v + t))))"
| "Parameter_init (Seq [v, l, h]) lo hi = Inr (set_params v (Some (Fin l)) (Some (Fin h)))"
| "Parameter_init (Seq vs) lo hi = Inl TypeError"

text \<open>\<^verbatim>\<open>Parameter(v)\<close> with a float \<^verbatim>\<open>v\<close>, as the model constructors call it.\<close>

definition Parameter1 :: "real \<Rightarrow> Parameter" where
  "Parameter1 v = set_params v None None"

subsection \<open>Parameter dictionaries\<close>

text \<open>
  The keys of the \<^verbatim>\<open>params\<close> dictionaries. The source's keys are strings; the two
  formatted families \<^verbatim>\<open>f"[{u},{v}] Intensity"\<close> and \<^verbatim>\<open>f"[{u}, {v}] Phase"\<close> are the
  constructors \<open>K_peak_intensity u v\<close> and \<open>K_peak_phase u v\<close> (distinct index
  pairs print as distinct strings). \<open>K_level\<close> is the key \<^verbatim>\<open>"level"\<close>, which the Gaussian ring reads.
\<close>

datatype pkey =
  K_x_center | K_y_center | K_DC_Level | K_sigma | K_intensity | K_radius | K_level
  | K_ux | K_uy | K_vx | K_vy | K_peak_intensity int int | K_peak_phase int int
  | K_disk_radius | K_edge_width

type_synonym pdict = "(pkey \<times> Parameter) list"

text \<open>
  A Python dict keeps insertion order; assigning to a key that is present replaces
  the value in place. That is \<open>AList.update\<close>.
\<close>

definition dict_set :: "pdict \<Rightarrow> pkey \<Rightarrow> Parameter \<Rightarrow> pdict" where
  "dict_set d k v = AList.update k v d"

definition dict_get :: "pdict \<Rightarrow> pkey \<Rightarrow> py_error + Parameter" where
  "dict_get d k = (case map_of d k of None \<Rightarrow> Inl KeyError | Some p \<Rightarrow> Inr p)"

text \<open>\<^verbatim>\<open>x[param.offset]\<close>: the offset must be an integer inside \<^verbatim>\<open>x\<close>.\<close>

definition at_offset :: "real list \<Rightarrow> Parameter \<Rightarrow> py_error + real" where
  "at_offset x p =
     (case offset p of
        None \<Rightarrow> Inl IndexError
      | Some i \<Rightarrow> if i < length x then Inr (x ! i) else Inl IndexError)"

text \<open>\<^verbatim>\<open>x[self.params[k].offset]\<close>.\<close>

definition x_at :: "real list \<Rightarrow> pdict \<Rightarrow> pkey \<Rightarrow> py_error + real" where
  "x_at x d k = bind_err (dict_get d k) (at_offset x)"

subsection \<open>WPFModelPrototype\<close>

record WPFModelPrototype =
  name :: string
  params :: pdict
  nParams :: nat
  hasJacobian :: bool
  model_type :: WPFModelType

text \<open>
  \<^verbatim>\<open>WPFModelPrototype.__init__\<close>. \<^verbatim>\<open>hasJacobian\<close> is whether the object has an
  attribute \<^verbatim>\<open>jacobian\<close>; the constructor of each class passes that as \<open>has_jac\<close>.
\<close>

definition WPFModelPrototype_init :: "bool \<Rightarrow> string \<Rightarrow> pdict \<Rightarrow> WPFModelType \<Rightarrow> WPFModelPrototype" where
  "WPFModelPrototype_init has_jac nm ps mt =
     \<lparr> name = nm, params = ps, nParams = length (map fst ps),
       hasJacobian = has_jac, model_type = mt \<rparr>"

definition WPFModelPrototype_func :: "pattern \<Rightarrow> real list \<Rightarrow> py_error + pattern" where
  "WPFModelPrototype_func DP x = Inl NotImplementedError"

subsection \<open>\_BaseModel\<close>

definition BaseModel_init :: "real \<Rightarrow> real \<Rightarrow> string \<Rightarrow> WPFModelPrototype" where
  "BaseModel_init x0 y0 nm =
     (let ps = dict_set (dict_set [] K_x_center (Parameter1 x0)) K_y_center (Parameter1 y0)
      in WPFModelPrototype_init True nm ps DUMMY)"

definition BaseModel_func :: "WPFModelPrototype \<Rightarrow> pattern \<Rightarrow> real list \<Rightarrow> py_error + pattern" where
  "BaseModel_func m DP x = Inr DP"

definition BaseModel_jacobian :: "WPFModelPrototype \<Rightarrow> jac \<Rightarrow> real list \<Rightarrow> py_error + jac" where
  "BaseModel_jacobian m J x = Inr J"

subsection \<open>The fitting driver, as the components see it\<close>

text \<open>
  The constructors receive the driver object \<^verbatim>\<open>WPF\<close> and read its coordinate
  model and its \<^verbatim>\<open>static_data\<close>; the forward and Jacobian functions receive
  \<^verbatim>\<open>static_data\<close> as keyword arguments, with the driver itself under the keyword
  \<^verbatim>\<open>parent\<close>. The driver class is not part of this file: its helper
  \<^verbatim>\<open>_get_distance\<close> is a field of the record, so every result below holds for any
  helper.
\<close>

record static_data =
  xArray :: pattern
  yArray :: pattern
  global_x0 :: real
  global_y0 :: real
  Q_Nx :: nat
  Q_Ny :: nat

record WPF =
  coordinate_model :: WPFModelPrototype
  static :: static_data
  get_distance :: "real list \<Rightarrow> Parameter \<Rightarrow> Parameter \<Rightarrow> py_error + pattern"

text \<open>
  Modelled from the spec: \<^verbatim>\<open>WPF._get_distance\<close>, which is not in this file. The spec
  calls it the distance-to-center helper, "Euclidean pixel distance from the center".
  It is used only to build concrete inputs.
\<close>

definition euclid_distance :: "static_data \<Rightarrow> real list \<Rightarrow> Parameter \<Rightarrow> Parameter \<Rightarrow> py_error + pattern" where
  "euclid_distance sd x xParam yParam =
     bind_err (at_offset x xParam) (\<lambda>cx.
     bind_err (at_offset x yParam) (\<lambda>cy.
       Inr (\<lambda>p. sqrt ((xArray sd p - cx)\<^sup>2 + (yArray sd p - cy)\<^sup>2))))"

subsection \<open>DCBackground\<close>

definition DCBackground_init :: "real \<Rightarrow> string \<Rightarrow> WPFModelPrototype" where
  "DCBackground_init background_value nm =
     WPFModelPrototype_init True nm (dict_set [] K_DC_Level (Parameter1 background_value)) BACKGROUND"

definition DCBackground_func :: "WPFModelPrototype \<Rightarrow> pattern \<Rightarrow> real list \<Rightarrow> WPF \<Rightarrow> py_error + pattern" where
  "DCBackground_func m DP x kw =
     bind_err (x_at x (params m) K_DC_Level) (\<lambda>level. Inr (\<lambda>p. DP p + level))"

subsection \<open>GaussianBackground\<close>

definition GaussianBackground_init ::
  "WPF \<Rightarrow> real \<Rightarrow> real \<Rightarrow> bool \<Rightarrow> real \<Rightarrow> real \<Rightarrow> string \<Rightarrow> py_error + WPFModelPrototype" where
  "GaussianBackground_init W sigma intensity global_center x0 y0 nm =
     (let ps = dict_set (dict_set [] K_sigma (Parameter1 sigma)) K_intensity (Parameter1 intensity)
      in if global_center then
           bind_err (dict_get (params (coordinate_model W)) K_x_center) (\<lambda>xc.
           bind_err (dict_get (params (coordinate_model W)) K_y_center) (\<lambda>yc.
             Inr (WPFModelPrototype_init True nm
                    (dict_set (dict_set ps K_x_center xc) K_y_center yc) BACKGROUND)))
         else
           Inr (WPFModelPrototype_init True nm
                  (dict_set (dict_set ps K_x_center (Parameter1 x0)) K_y_center (Parameter1 y0))
                  BACKGROUND))"

definition GaussianBackground_func :: "WPFModelPrototype \<Rightarrow> pattern \<Rightarrow> real list \<Rightarrow> WPF \<Rightarrow> py_error + pattern" where
  "GaussianBackground_func m DP x kw =
     bind_err (x_at x (params m) K_sigma) (\<lambda>sigma.
     bind_err (x_at x (params m) K_intensity) (\<lambda>level.
     bind_err (dict_get (params m) K_x_center) (\<lambda>xc.
     bind_err (dict_get (params m) K_y_center) (\<lambda>yc.
     bind_err (get_distance kw x xc yc) (\<lambda>r.
       Inr (iadd DP (\<lambda>p. level * exp ((r p)\<^sup>2 / (- 2 * sigma\<^sup>2)))))))))"

subsection \<open>GaussianRing\<close>

definition GaussianRing_init ::
  "WPF \<Rightarrow> real \<Rightarrow> real \<Rightarrow> real \<Rightarrow> bool \<Rightarrow> real \<Rightarrow> real \<Rightarrow> string \<Rightarrow> py_error + WPFModelPrototype" where
  "GaussianRing_init W radius sigma intensity global_center x0 y0 nm =
     (let ps = dict_set (dict_set (dict_set [] K_radius (Parameter1 radius))
                 K_sigma (Parameter1 sigma)) K_intensity (Parameter1 intensity)
      in bind_err (if global_center then dict_get (params (coordinate_model W)) K_x_center
                   else Inr (Parameter1 x0)) (\<lambda>xc.
         bind_err (if global_center then dict_get (params (coordinate_model W)) K_y_center
                   else Inr (Parameter1 y0)) (\<lambda>yc.
           Inr (WPFModelPrototype_init False nm
                  (dict_set (dict_set ps K_x_center xc) K_y_center yc) AMORPHOUS))))"

text \<open>
  The class defines neither \<^verbatim>\<open>func\<close> nor \<^verbatim>\<open>jacobian\<close>: its \<^verbatim>\<open>func\<close> is the
  prototype's. Its own forward function is \<^verbatim>\<open>global_center_func\<close>, which reads the
  key \<^verbatim>\<open>"level"\<close> and then calls \<^verbatim>\<open>WPF._get_distance\<close>, where \<^verbatim>\<open>WPF\<close> is not a name
  bound in the module: evaluating it raises \<^verbatim>\<open>NameError\<close>, and the statements after
  it are never reached.
\<close>

definition GaussianRing_func :: "WPFModelPrototype \<Rightarrow> pattern \<Rightarrow> real list \<Rightarrow> WPF \<Rightarrow> py_error + pattern" where
  "GaussianRing_func m DP x kw = WPFModelPrototype_func DP x"

definition GaussianRing_global_center_func ::
  "WPFModelPrototype \<Rightarrow> pattern \<Rightarrow> real list \<Rightarrow> WPF \<Rightarrow> py_error + pattern" where
  "GaussianRing_global_center_func m DP x kw =
     bind_err (x_at x (params m) K_radius) (\<lambda>radius.
     bind_err (x_at x (params m) K_sigma) (\<lambda>sigma.
     bind_err (x_at x (params m) K_level) (\<lambda>level.
       Inl NameError)))"

definition GaussianRing_global_center_jacobian ::
  "WPFModelPrototype \<Rightarrow> jac \<Rightarrow> real list \<Rightarrow> WPF \<Rightarrow> py_error + jac" where
  "GaussianRing_global_center_jacobian m J x kw =
     bind_err (x_at x (params m) K_radius) (\<lambda>radius.
     bind_err (x_at x (params m) K_sigma) (\<lambda>sigma.
     bind_err (x_at x (params m) K_level) (\<lambda>level.
     bind_err (x_at x (params m) K_x_center) (\<lambda>x0.
     bind_err (x_at x (params m) K_y_center) (\<lambda>y0.
       Inl NameError)))))"

subsection \<open>SyntheticDiskMoire\<close>

text \<open>
  The constructor passes \<^verbatim>\<open>params\<close> to the prototype without ever binding it: it
  raises \<^verbatim>\<open>NameError\<close>. Both functions are \<^verbatim>\<open>pass\<close>.
\<close>

definition SyntheticDiskMoire_init :: "string \<Rightarrow> py_error + WPFModelPrototype" where
  "SyntheticDiskMoire_init nm = Inl NameError"

definition SyntheticDiskMoire_func :: "WPFModelPrototype \<Rightarrow> pattern \<Rightarrow> real list \<Rightarrow> WPF \<Rightarrow> py_error + pattern" where
  "SyntheticDiskMoire_func m DP x kw = Inr DP"

subsection \<open>SyntheticDiskLattice\<close>

record LatticeModel = WPFModelPrototype +
  u_inds :: "int list"
  v_inds :: "int list"

record SyntheticDiskLattice = LatticeModel +
  disk_radius :: real
  disk_width :: real
  refine_radius :: bool
  refine_width :: bool

text \<open>
  \<^verbatim>\<open>np.mgrid[-u_max : u_max + 1, -v_max : v_max + 1]\<close>, both index arrays raveled:
  the pairs \<open>(u, v)\<close> in row-major order.
\<close>

definition mgrid_u :: "int \<Rightarrow> int \<Rightarrow> int list" where
  "mgrid_u u_max v_max = map fst (List.product [- u_max .. u_max] [- v_max .. v_max])"

definition mgrid_v :: "int \<Rightarrow> int \<Rightarrow> int list" where
  "mgrid_v u_max v_max = map snd (List.product [- u_max .. u_max] [- v_max .. v_max])"

text \<open>\<^verbatim>\<open>(x < 0) or (x > Q_Nx) or (y < 0) or (y > Q_Ny)\<close>.\<close>

definition outside :: "real \<Rightarrow> real \<Rightarrow> nat \<Rightarrow> nat \<Rightarrow> bool" where
  "outside x y qnx qny \<longleftrightarrow> x < 0 \<or> x > real qnx \<or> y < 0 \<or> y > real qny"

text \<open>
  The pruning loop of the constructor over the candidate pairs. It returns the
  parameter dictionary and the delete mask. \<open>c0 = (x0, y0)\<close> is the initial center;
  \<open>lv = (ux, uy, vx, vy)\<close> are the initial values of the four lattice-vector
  parameters, which the constructor has just stored under their keys.
\<close>

fun SDL_prune ::
  "real \<times> real \<Rightarrow> real \<times> real \<times> real \<times> real \<Rightarrow> nat \<Rightarrow> nat \<Rightarrow> (int \<times> int) list \<Rightarrow> real \<Rightarrow>
   (int \<times> int) list \<Rightarrow> pdict \<Rightarrow> pdict \<times> bool list" where
  "SDL_prune c0 lv qnx qny exclude_indices intensity_0 [] ps = (ps, [])"
| "SDL_prune c0 lv qnx qny exclude_indices intensity_0 ((u, v) # rest) ps =
     (let x = fst c0 + (real_of_int u * fst lv) + (real_of_int v * fst (snd (snd lv)));
          y = snd c0 + (real_of_int u * fst (snd lv)) + (real_of_int v * snd (snd (snd lv)))
      in if (u, v) \<in> set exclude_indices then
           (let r = SDL_prune c0 lv qnx qny exclude_indices intensity_0 rest ps
            in (fst r, True # snd r))
         else if outside x y qnx qny then
           (let r = SDL_prune c0 lv qnx qny exclude_indices intensity_0 rest ps
            in (fst r, True # snd r))
         else
           (let r = SDL_prune c0 lv qnx qny exclude_indices intensity_0 rest
                      (dict_set ps (K_peak_intensity u v) (Parameter1 intensity_0))
            in (fst r, False # snd r)))"

text \<open>\<^verbatim>\<open>a[~delete_mask]\<close>.\<close>

definition keep_unmasked :: "'a list \<Rightarrow> bool list \<Rightarrow> 'a list" where
  "keep_unmasked a delete_mask = map fst (filter (\<lambda>e. \<not> snd e) (zip a delete_mask))"

text \<open>The loop over an explicit inclusion list: every entry gets its parameter.\<close>

fun SDL_include :: "real \<Rightarrow> (int \<times> int) list \<Rightarrow> pdict \<Rightarrow> pdict" where
  "SDL_include intensity_0 [] ps = ps"
| "SDL_include intensity_0 (ind # rest) ps =
     SDL_include intensity_0 rest
       (dict_set ps (K_peak_intensity (fst ind) (snd ind)) (Parameter1 intensity_0))"

text \<open>
  \<^verbatim>\<open>SyntheticDiskLattice.__init__\<close>. \<open>include_indices = None\<close> is the default. With
  an empty inclusion list, \<^verbatim>\<open>np.array([])[:, 0]\<close> raises \<^verbatim>\<open>IndexError\<close>. The flag
  \<^verbatim>\<open>verbose\<close> only prints.
\<close>

definition SyntheticDiskLattice_init ::
  "WPF \<Rightarrow> real \<Rightarrow> real \<Rightarrow> real \<Rightarrow> real \<Rightarrow> real \<Rightarrow> real \<Rightarrow> int \<Rightarrow> int \<Rightarrow> real \<Rightarrow> bool \<Rightarrow> bool \<Rightarrow> bool \<Rightarrow>
   real \<Rightarrow> real \<Rightarrow> (int \<times> int) list \<Rightarrow> (int \<times> int) list option \<Rightarrow> string \<Rightarrow>
   py_error + SyntheticDiskLattice" where
  "SyntheticDiskLattice_init W ux uy vx vy disk_radius' disk_width' u_max v_max intensity_0
     refine_radius' refine_width' global_center x0 y0 exclude_indices include_indices nm =
     bind_err (if global_center then dict_get (params (coordinate_model W)) K_x_center
               else Inr (Parameter1 x0)) (\<lambda>xc.
     bind_err (if global_center then dict_get (params (coordinate_model W)) K_y_center
               else Inr (Parameter1 y0)) (\<lambda>yc.
       (let ps0 = dict_set (dict_set [] K_x_center xc) K_y_center yc;
            c0 = (initial_value xc, initial_value yc);
            ps1 = dict_set (dict_set (dict_set (dict_set ps0 K_ux (Parameter1 ux))
                    K_uy (Parameter1 uy)) K_vx (Parameter1 vx)) K_vy (Parameter1 vy);
            qnx = Q_Nx (static W);
            qny = Q_Ny (static W)
        in bind_err
             (case include_indices of
                None \<Rightarrow>
                  (let us = mgrid_u u_max v_max;
                       vs = mgrid_v u_max v_max;
                       r = SDL_prune c0 (ux, uy, vx, vy) qnx qny exclude_indices intensity_0
                             (zip us vs) ps1
                   in Inr (fst r, keep_unmasked us (snd r), keep_unmasked vs (snd r)))
              | Some inds \<Rightarrow>
                  (let ps2 = SDL_include intensity_0 inds ps1
                   in if inds = [] then Inl IndexError
                      else Inr (ps2, map fst inds, map snd inds)))
             (\<lambda>(ps2, us, vs).
               (let ps3 = (if refine_radius' then dict_set ps2 K_disk_radius (Parameter1 disk_radius')
                           else ps2);
                    ps4 = (if refine_width' then dict_set ps3 K_edge_width (Parameter1 disk_width')
                           else ps3);
                    b = WPFModelPrototype_init True nm ps4 LATTICE
                in Inr \<lparr> name = name b, params = params b, nParams = nParams b,
                         hasJacobian = hasJacobian b, model_type = model_type b,
                         u_inds = us, v_inds = vs,
                         disk_radius = disk_radius', disk_width = disk_width',
                         refine_radius = refine_radius', refine_width = refine_width' \<rparr>)))))"

text \<open>One disk: the summand that \<^verbatim>\<open>func\<close> adds for one peak, at one pixel.\<close>

definition disk_profile :: "real \<Rightarrow> real \<Rightarrow> real \<Rightarrow> real \<Rightarrow> real" where
  "disk_profile intensity radius width r =
     intensity / (1.0 + exp (min (4 * (r - radius) / width) 20))"

text \<open>\<^verbatim>\<open>np.sqrt((xArray - x_pos) ** 2 + (yArray - y_pos) ** 2)\<close>.\<close>

definition dist_to :: "WPF \<Rightarrow> real \<Rightarrow> real \<Rightarrow> pattern" where
  "dist_to kw x_pos y_pos =
     (\<lambda>p. sqrt ((xArray (static kw) p - x_pos)\<^sup>2 + (yArray (static kw) p - y_pos)\<^sup>2))"

text \<open>
  The loop of \<^verbatim>\<open>func\<close> over the retained peaks. \<open>c = (x0, y0)\<close>,
  \<open>lv = (ux, uy, vx, vy)\<close> are the values read from \<^verbatim>\<open>x\<close>.
\<close>

fun SDL_func_loop ::
  "pdict \<Rightarrow> real list \<Rightarrow> WPF \<Rightarrow> real \<times> real \<Rightarrow> real \<times> real \<times> real \<times> real \<Rightarrow> real \<Rightarrow> real \<Rightarrow>
   (int \<times> int) list \<Rightarrow> pattern \<Rightarrow> py_error + pattern" where
  "SDL_func_loop ps x kw c lv radius width [] DP = Inr DP"
| "SDL_func_loop ps x kw c lv radius width ((u, v) # rest) DP =
     (let x_pos = fst c + (real_of_int u * fst lv) + (real_of_int v * fst (snd (snd lv)));
          y_pos = snd c + (real_of_int u * fst (snd lv)) + (real_of_int v * snd (snd (snd lv)))
      in bind_err (x_at x ps (K_peak_intensity u v)) (\<lambda>intensity.
           SDL_func_loop ps x kw c lv radius width rest
             (iadd DP (\<lambda>p. disk_profile intensity radius width (dist_to kw x_pos y_pos p)))))"

definition SyntheticDiskLattice_func ::
  "SyntheticDiskLattice \<Rightarrow> pattern \<Rightarrow> real list \<Rightarrow> WPF \<Rightarrow> py_error + pattern" where
  "SyntheticDiskLattice_func m DP x kw =
     bind_err (x_at x (params m) K_x_center) (\<lambda>x0.
     bind_err (x_at x (params m) K_y_center) (\<lambda>y0.
     bind_err (x_at x (params m) K_ux) (\<lambda>ux.
     bind_err (x_at x (params m) K_uy) (\<lambda>uy.
     bind_err (x_at x (params m) K_vx) (\<lambda>vx.
     bind_err (x_at x (params m) K_vy) (\<lambda>vy.
     bind_err (if refine_radius m then x_at x (params m) K_disk_radius
               else Inr (disk_radius m)) (\<lambda>radius.
     bind_err (if refine_width m then x_at x (params m) K_edge_width
               else Inr (disk_width m)) (\<lambda>width.
       SDL_func_loop (params m) x kw (x0, y0) (ux, uy, vx, vy) radius width
         (zip (u_inds m) (v_inds m)) DP))))))))"

text \<open>\<^verbatim>\<open>self.params[k].offset\<close> used as a column index of \<^verbatim>\<open>J\<close>.\<close>

definition col_of :: "pdict \<Rightarrow> pkey \<Rightarrow> py_error + nat" where
  "col_of d k =
     bind_err (dict_get d k) (\<lambda>p. case offset p of None \<Rightarrow> Inl IndexError | Some c \<Rightarrow> Inr c)"

text \<open>
  The quantities the Jacobian computes for one peak: \<open>r_disk\<close>, \<open>mask\<close>,
  \<open>top_exp\<close>, and the arrays \<open>dx\<close>, \<open>dy\<close>, \<open>dI\<close>, \<open>dR\<close>, \<open>dW\<close>. A boolean mask
  multiplies as 0 or 1.
\<close>

definition r_disk :: "WPF \<Rightarrow> real \<Rightarrow> real \<Rightarrow> pattern" where
  "r_disk kw x_pos y_pos = (\<lambda>p. max 0.5 (dist_to kw x_pos y_pos p))"

definition top_exp :: "WPF \<Rightarrow> real \<Rightarrow> real \<Rightarrow> real \<Rightarrow> real \<Rightarrow> pattern" where
  "top_exp kw x_pos y_pos radius width =
     (\<lambda>p. let mask = of_bool (r_disk kw x_pos y_pos p < 2 * radius)
           in mask * exp (4 * ((mask * r_disk kw x_pos y_pos p) - radius) / width))"

definition jac_dx :: "WPF \<Rightarrow> pattern \<Rightarrow> real \<Rightarrow> real \<Rightarrow> real \<Rightarrow> real \<Rightarrow> real \<Rightarrow> pattern" where
  "jac_dx kw r disk_intensity x_pos y_pos radius width =
     (\<lambda>p. 4 * disk_intensity * (xArray (static kw) p - x_pos) * top_exp kw x_pos y_pos radius width p
           / ((1.0 + top_exp kw x_pos y_pos radius width p)\<^sup>2 * width * r p))"

definition jac_dy :: "WPF \<Rightarrow> pattern \<Rightarrow> real \<Rightarrow> real \<Rightarrow> real \<Rightarrow> real \<Rightarrow> real \<Rightarrow> pattern" where
  "jac_dy kw r disk_intensity x_pos y_pos radius width =
     (\<lambda>p. 4 * disk_intensity * (yArray (static kw) p - y_pos) * top_exp kw x_pos y_pos radius width p
           / ((1.0 + top_exp kw x_pos y_pos radius width p)\<^sup>2 * width * r p))"

definition jac_dI :: "WPF \<Rightarrow> real \<Rightarrow> real \<Rightarrow> real \<Rightarrow> real \<Rightarrow> pattern" where
  "jac_dI kw x_pos y_pos radius width =
     (\<lambda>p. of_bool (r_disk kw x_pos y_pos p < 2 * radius)
           * (1.0 / (1.0 + top_exp kw x_pos y_pos radius width p)))"

definition jac_dR :: "WPF \<Rightarrow> real \<Rightarrow> real \<Rightarrow> real \<Rightarrow> real \<Rightarrow> real \<Rightarrow> pattern" where
  "jac_dR kw disk_intensity x_pos y_pos radius width =
     (\<lambda>p. 4.0 * disk_intensity * top_exp kw x_pos y_pos radius width p
           / (width * (1.0 + top_exp kw x_pos y_pos radius width p)\<^sup>2))"

definition jac_dW :: "WPF \<Rightarrow> real \<Rightarrow> real \<Rightarrow> real \<Rightarrow> real \<Rightarrow> real \<Rightarrow> pattern" where
  "jac_dW kw disk_intensity x_pos y_pos radius width =
     (\<lambda>p. 4.0 * disk_intensity * top_exp kw x_pos y_pos radius width p
           * (r_disk kw x_pos y_pos p - radius)
           / (width\<^sup>2 * (1.0 + top_exp kw x_pos y_pos radius width p)\<^sup>2))"

text \<open>\<^verbatim>\<open>J[:, self.params[k].offset] += a\<close>.\<close>

definition J_iadd :: "pdict \<Rightarrow> pkey \<Rightarrow> pattern \<Rightarrow> jac \<Rightarrow> py_error + jac" where
  "J_iadd d k a J = bind_err (col_of d k) (\<lambda>c. Inr (col_iadd J c a))"

text \<open>The loop of \<^verbatim>\<open>jacobian\<close> over the retained peaks.\<close>

fun SDL_jac_loop ::
  "SyntheticDiskLattice \<Rightarrow> real list \<Rightarrow> WPF \<Rightarrow> pattern \<Rightarrow> real \<times> real \<Rightarrow> real \<times> real \<times> real \<times> real \<Rightarrow>
   real \<Rightarrow> real \<Rightarrow> (int \<times> int) list \<Rightarrow> jac \<Rightarrow> py_error + jac" where
  "SDL_jac_loop m x kw r c lv radius width [] J = Inr J"
| "SDL_jac_loop m x kw r c lv radius width ((u, v) # rest) J =
     (let x_pos = fst c + (real_of_int u * fst lv) + (real_of_int v * fst (snd (snd lv)));
          y_pos = snd c + (real_of_int u * fst (snd lv)) + (real_of_int v * snd (snd (snd lv)))
      in bind_err (x_at x (params m) (K_peak_intensity u v)) (\<lambda>disk_intensity.
         (let dx = jac_dx kw r disk_intensity x_pos y_pos radius width;
              dy = jac_dy kw r disk_intensity x_pos y_pos radius width
          in bind_err (J_iadd (params m) K_x_center (\<lambda>p. disk_intensity * dx p) J) (\<lambda>J1.
             bind_err (J_iadd (params m) K_y_center (\<lambda>p. disk_intensity * dy p) J1) (\<lambda>J2.
             bind_err (J_iadd (params m) K_ux (\<lambda>p. disk_intensity * real_of_int u * dx p) J2) (\<lambda>J3.
             bind_err (J_iadd (params m) K_uy (\<lambda>p. disk_intensity * real_of_int u * dy p) J3) (\<lambda>J4.
             bind_err (J_iadd (params m) K_vx (\<lambda>p. disk_intensity * real_of_int v * dx p) J4) (\<lambda>J5.
             bind_err (J_iadd (params m) K_vy (\<lambda>p. disk_intensity * real_of_int v * dy p) J5) (\<lambda>J6.
             bind_err (J_iadd (params m) (K_peak_intensity u v)
                         (jac_dI kw x_pos y_pos radius width) J6) (\<lambda>J7.
             bind_err (if refine_radius m
                       then J_iadd (params m) K_disk_radius
                              (jac_dR kw disk_intensity x_pos y_pos radius width) J7
                       else Inr J7) (\<lambda>J8.
             bind_err (if refine_width m
                       then J_iadd (params m) K_edge_width
                              (jac_dW kw disk_intensity x_pos y_pos radius width) J8
                       else Inr J8) (\<lambda>J9.
               SDL_jac_loop m x kw r c lv radius width rest J9))))))))))))"

definition SyntheticDiskLattice_jacobian ::
  "SyntheticDiskLattice \<Rightarrow> jac \<Rightarrow> real list \<Rightarrow> WPF \<Rightarrow> py_error + jac" where
  "SyntheticDiskLattice_jacobian m J x kw =
     bind_err (x_at x (params m) K_x_center) (\<lambda>x0.
     bind_err (x_at x (params m) K_y_center) (\<lambda>y0.
     bind_err (x_at x (params m) K_ux) (\<lambda>ux.
     bind_err (x_at x (params m) K_uy) (\<lambda>uy.
     bind_err (x_at x (params m) K_vx) (\<lambda>vx.
     bind_err (x_at x (params m) K_vy) (\<lambda>vy.
     bind_err (dict_get (params m) K_x_center) (\<lambda>xc.
     bind_err (dict_get (params m) K_y_center) (\<lambda>yc.
     bind_err (get_distance kw x xc yc) (\<lambda>d.
     bind_err (if refine_radius m then x_at x (params m) K_disk_radius
               else Inr (disk_radius m)) (\<lambda>radius.
     bind_err (if refine_width m then x_at x (params m) K_edge_width
               else Inr (disk_width m)) (\<lambda>width.
       SDL_jac_loop m x kw (\<lambda>p. max 0.5 (d p)) (x0, y0) (ux, uy, vx, vy) radius width
         (zip (u_inds m) (v_inds m)) J)))))))))))"

subsection \<open>Kernel lattices: numpy's discrete Fourier transform\<close>

text \<open>
  \<^verbatim>\<open>np.fft.fft2\<close>, \<^verbatim>\<open>np.fft.ifft2\<close> and \<^verbatim>\<open>np.fft.fftfreq\<close> as numpy documents them,
  for arrays of shape \<open>shp = (M, N)\<close>.
\<close>

definition fft2 :: "nat \<times> nat \<Rightarrow> (pixel \<Rightarrow> complex) \<Rightarrow> pixel \<Rightarrow> complex" where
  "fft2 shp a =
     (\<lambda>q. \<Sum>m\<leftarrow>[0..<fst shp]. \<Sum>n\<leftarrow>[0..<snd shp].
        a (m, n) * exp (- 2 * \<i> * complex_of_real pi
          * complex_of_real (real (fst q) * real m / real (fst shp)
                             + real (snd q) * real n / real (snd shp))))"

definition ifft2 :: "nat \<times> nat \<Rightarrow> (pixel \<Rightarrow> complex) \<Rightarrow> pixel \<Rightarrow> complex" where
  "ifft2 shp A =
     (\<lambda>p. (\<Sum>k\<leftarrow>[0..<fst shp]. \<Sum>l\<leftarrow>[0..<snd shp].
        A (k, l) * exp (2 * \<i> * complex_of_real pi
          * complex_of_real (real k * real (fst p) / real (fst shp)
                             + real l * real (snd p) / real (snd shp))))
       / complex_of_real (real (fst shp * snd shp)))"

definition fftfreq :: "nat \<Rightarrow> nat \<Rightarrow> real" where
  "fftfreq n k = (if k < (n - 1) div 2 + 1 then real k / real n
                  else (real k - real n) / real n)"

subsection \<open>KernelDiskLattice and ComplexOverlapKernelDiskLattice\<close>

text \<open>
  Both classes hold the same attributes. \<open>Q_shape\<close> is the shape \<open>(Q_Nx, Q_Ny)\<close>
  that the arrays \<^verbatim>\<open>xqArray\<close>, \<^verbatim>\<open>yqArray\<close> and \<^verbatim>\<open>probe_kernelFT\<close> carry; the probe
  kernel has the shape of the pattern.
\<close>

record KernelDiskLattice = LatticeModel +
  probe_kernelFT :: "pixel \<Rightarrow> complex"
  xqArray :: pattern
  yqArray :: pattern
  Q_shape :: "nat \<times> nat"

text \<open>The pruning loop of \<^verbatim>\<open>KernelDiskLattice.__init__\<close>.\<close>

fun KDL_prune ::
  "real \<times> real \<Rightarrow> real \<times> real \<times> real \<times> real \<Rightarrow> nat \<Rightarrow> nat \<Rightarrow> (int \<times> int) list \<Rightarrow> real \<Rightarrow>
   (int \<times> int) list \<Rightarrow> pdict \<Rightarrow> pdict \<times> bool list" where
  "KDL_prune c0 lv qnx qny exclude_indices intensity_0 [] ps = (ps, [])"
| "KDL_prune c0 lv qnx qny exclude_indices intensity_0 ((u, v) # rest) ps =
     (let x = fst c0 + (real_of_int u * fst lv) + (real_of_int v * fst (snd (snd lv)));
          y = snd c0 + (real_of_int u * fst (snd lv)) + (real_of_int v * snd (snd (snd lv)))
      in if (u, v) \<in> set exclude_indices then
           (let r = KDL_prune c0 lv qnx qny exclude_indices intensity_0 rest ps
            in (fst r, True # snd r))
         else if outside x y qnx qny then
           (let r = KDL_prune c0 lv qnx qny exclude_indices intensity_0 rest ps
            in (fst r, True # snd r))
         else
           (let r = KDL_prune c0 lv qnx qny exclude_indices intensity_0 rest
                      (dict_set ps (K_peak_intensity u v) (Parameter1 intensity_0))
            in (fst r, False # snd r)))"

text \<open>
  The pruning loop of \<^verbatim>\<open>ComplexOverlapKernelDiskLattice.__init__\<close>: a surviving peak
  gets an intensity and a phase; the phase of the direct beam is clamped.
\<close>

fun COK_prune ::
  "real \<times> real \<Rightarrow> real \<times> real \<times> real \<times> real \<Rightarrow> nat \<Rightarrow> nat \<Rightarrow> (int \<times> int) list \<Rightarrow> real \<Rightarrow>
   (int \<times> int) list \<Rightarrow> pdict \<Rightarrow> pdict \<times> bool list" where
  "COK_prune c0 lv qnx qny exclude_indices intensity_0 [] ps = (ps, [])"
| "COK_prune c0 lv qnx qny exclude_indices intensity_0 ((u, v) # rest) ps =
     (let x = fst c0 + (real_of_int u * fst lv) + (real_of_int v * fst (snd (snd lv)));
          y = snd c0 + (real_of_int u * fst (snd lv)) + (real_of_int v * snd (snd (snd lv)))
      in if (u, v) \<in> set exclude_indices then
           (let r = COK_prune c0 lv qnx qny exclude_indices intensity_0 rest ps
            in (fst r, True # snd r))
         else if outside x y qnx qny then
           (let r = COK_prune c0 lv qnx qny exclude_indices intensity_0 rest ps
            in (fst r, True # snd r))
         else
           (let ps1 = dict_set ps (K_peak_intensity u v) (Parameter1 intensity_0);
                ps2 = (if u = 0 \<and> v = 0
                       then dict_set ps1 (K_peak_phase u v)
                              (set_params 0.0 (Some (Fin 0.0)) (Some (Fin 0.0)))
                       else dict_set ps1 (K_peak_phase u v)
                              (set_params 0.01 (Some (Fin (- pi))) (Some (Fin pi))));
                r = COK_prune c0 lv qnx qny exclude_indices intensity_0 rest ps2
            in (fst r, False # snd r)))"

text \<open>
  The two constructors differ only in the pruning loop. \<^verbatim>\<open>np.fft.fftfreq(0)\<close>
  divides by zero. Neither class defines \<^verbatim>\<open>jacobian\<close>.
\<close>

definition kernel_lattice_init ::
  "(real \<times> real \<Rightarrow> real \<times> real \<times> real \<times> real \<Rightarrow> nat \<Rightarrow> nat \<Rightarrow> (int \<times> int) list \<Rightarrow> real \<Rightarrow>
      (int \<times> int) list \<Rightarrow> pdict \<Rightarrow> pdict \<times> bool list) \<Rightarrow>
   WPF \<Rightarrow> (pixel \<Rightarrow> complex) \<Rightarrow> real \<Rightarrow> real \<Rightarrow> real \<Rightarrow> real \<Rightarrow> int \<Rightarrow> int \<Rightarrow> real \<Rightarrow>
   (int \<times> int) list \<Rightarrow> string \<Rightarrow> py_error + KernelDiskLattice" where
  "kernel_lattice_init prune W probe_kernel ux uy vx vy u_max v_max intensity_0 exclude_indices nm =
     (let qnx = Q_Nx (static W);
          qny = Q_Ny (static W);
          kft = fft2 (qnx, qny) probe_kernel;
          ps1 = dict_set (dict_set (dict_set (dict_set [] K_ux (Parameter1 ux))
                  K_uy (Parameter1 uy)) K_vx (Parameter1 vx)) K_vy (Parameter1 vy);
          us = mgrid_u u_max v_max;
          vs = mgrid_v u_max v_max
      in if qny = 0 \<or> qnx = 0 then Inl ZeroDivisionError
         else
           (let r = prune (global_x0 (static W), global_y0 (static W)) (ux, uy, vx, vy) qnx qny
                      exclude_indices intensity_0 (zip us vs) ps1;
                b = WPFModelPrototype_init False nm (fst r) LATTICE
            in Inr \<lparr> name = name b, params = params b, nParams = nParams b,
                     hasJacobian = hasJacobian b, model_type = model_type b,
                     u_inds = keep_unmasked us (snd r), v_inds = keep_unmasked vs (snd r),
                     probe_kernelFT = kft,
                     xqArray = (\<lambda>q. fftfreq qnx (fst q)),
                     yqArray = (\<lambda>q. fftfreq qny (snd q)),
                     Q_shape = (qnx, qny) \<rparr>))"

definition KernelDiskLattice_init ::
  "WPF \<Rightarrow> (pixel \<Rightarrow> complex) \<Rightarrow> real \<Rightarrow> real \<Rightarrow> real \<Rightarrow> real \<Rightarrow> int \<Rightarrow> int \<Rightarrow> real \<Rightarrow>
   (int \<times> int) list \<Rightarrow> string \<Rightarrow> py_error + KernelDiskLattice" where
  "KernelDiskLattice_init = kernel_lattice_init KDL_prune"

definition ComplexOverlapKernelDiskLattice_init ::
  "WPF \<Rightarrow> (pixel \<Rightarrow> complex) \<Rightarrow> real \<Rightarrow> real \<Rightarrow> real \<Rightarrow> real \<Rightarrow> int \<Rightarrow> int \<Rightarrow> real \<Rightarrow>
   (int \<times> int) list \<Rightarrow> string \<Rightarrow> py_error + KernelDiskLattice" where
  "ComplexOverlapKernelDiskLattice_init = kernel_lattice_init COK_prune"

text \<open>
  \<^verbatim>\<open>np.fft.ifft2(self.probe_kernelFT * np.exp(-2j * np.pi * (self.xqArray * x + self.yqArray * y)))\<close>:
  the probe kernel shifted to \<open>(x, y)\<close>.
\<close>

definition shifted_kernel :: "KernelDiskLattice \<Rightarrow> real \<Rightarrow> real \<Rightarrow> pixel \<Rightarrow> complex" where
  "shifted_kernel m x y =
     ifft2 (Q_shape m)
       (\<lambda>q. probe_kernelFT m q
             * exp (- 2 * \<i> * complex_of_real pi
                    * complex_of_real (xqArray m q * x + yqArray m q * y)))"

text \<open>\<^verbatim>\<open>args[i]\<close> on the tuple of positional arguments.\<close>

definition arg_at :: "real list \<Rightarrow> nat \<Rightarrow> py_error + real" where
  "arg_at args i = (if i < length args then Inr (args ! i) else Inl IndexError)"

text \<open>The loop of \<^verbatim>\<open>KernelDiskLattice.local_center_func\<close>; \<open>i\<close> is the loop counter.\<close>

fun KDL_func_loop ::
  "KernelDiskLattice \<Rightarrow> real list \<Rightarrow> real \<times> real \<Rightarrow> real \<times> real \<times> real \<times> real \<Rightarrow> nat \<Rightarrow>
   (int \<times> int) list \<Rightarrow> pattern \<Rightarrow> py_error + pattern" where
  "KDL_func_loop m args c lv i [] DP = Inr DP"
| "KDL_func_loop m args c lv i ((u, v) # rest) DP =
     (let x = fst c + (real_of_int u * fst lv) + (real_of_int v * fst (snd (snd lv)));
          y = snd c + (real_of_int u * fst (snd lv)) + (real_of_int v * snd (snd (snd lv)))
      in bind_err (arg_at args (i + 6)) (\<lambda>a.
           KDL_func_loop m args c lv (Suc i) rest
             (iadd DP (\<lambda>p. (a * cmod (shifted_kernel m x y p))\<^sup>2))))"

definition KernelDiskLattice_local_center_func ::
  "KernelDiskLattice \<Rightarrow> pattern \<Rightarrow> real list \<Rightarrow> WPF \<Rightarrow> py_error + pattern" where
  "KernelDiskLattice_local_center_func m DP args kw =
     bind_err (arg_at args 0) (\<lambda>x0.
     bind_err (arg_at args 1) (\<lambda>y0.
     bind_err (arg_at args 2) (\<lambda>ux.
     bind_err (arg_at args 3) (\<lambda>uy.
     bind_err (arg_at args 4) (\<lambda>vx.
     bind_err (arg_at args 5) (\<lambda>vy.
       KDL_func_loop m args (x0, y0) (ux, uy, vx, vy) 0 (zip (u_inds m) (v_inds m)) DP))))))"

text \<open>\<^verbatim>\<open>self.func = self.global_center_func\<close>: the two global centers go in front.\<close>

definition KernelDiskLattice_global_center_func ::
  "KernelDiskLattice \<Rightarrow> pattern \<Rightarrow> real list \<Rightarrow> WPF \<Rightarrow> py_error + pattern" where
  "KernelDiskLattice_global_center_func m DP args kw =
     KernelDiskLattice_local_center_func m DP
       (global_x0 (static kw) # global_y0 (static kw) # args) kw"

text \<open>
  The loop of \<^verbatim>\<open>ComplexOverlapKernelDiskLattice.local_center_func\<close>, which
  accumulates the complex array \<^verbatim>\<open>localDP\<close>.
\<close>

fun COK_func_loop ::
  "KernelDiskLattice \<Rightarrow> real list \<Rightarrow> real \<times> real \<Rightarrow> real \<times> real \<times> real \<times> real \<Rightarrow> nat \<Rightarrow>
   (int \<times> int) list \<Rightarrow> (pixel \<Rightarrow> complex) \<Rightarrow> py_error + (pixel \<Rightarrow> complex)" where
  "COK_func_loop m args c lv i [] localDP = Inr localDP"
| "COK_func_loop m args c lv i ((u, v) # rest) localDP =
     (let x = fst c + (real_of_int u * fst lv) + (real_of_int v * fst (snd (snd lv)));
          y = snd c + (real_of_int u * fst (snd lv)) + (real_of_int v * snd (snd (snd lv)))
      in bind_err (arg_at args (2 * i + 6)) (\<lambda>a.
         bind_err (arg_at args (2 * i + 7)) (\<lambda>ph.
           COK_func_loop m args c lv (Suc i) rest
             (\<lambda>p. localDP p
                   + complex_of_real a * exp (\<i> * complex_of_real ph)
                     * complex_of_real (cmod (shifted_kernel m x y p))))))"

definition ComplexOverlapKernelDiskLattice_local_center_func ::
  "KernelDiskLattice \<Rightarrow> pattern \<Rightarrow> real list \<Rightarrow> WPF \<Rightarrow> py_error + pattern" where
  "ComplexOverlapKernelDiskLattice_local_center_func m DP args kw =
     bind_err (arg_at args 0) (\<lambda>x0.
     bind_err (arg_at args 1) (\<lambda>y0.
     bind_err (arg_at args 2) (\<lambda>ux.
     bind_err (arg_at args 3) (\<lambda>uy.
     bind_err (arg_at args 4) (\<lambda>vx.
     bind_err (arg_at args 5) (\<lambda>vy.
     bind_err (COK_func_loop m args (x0, y0) (ux, uy, vx, vy) 0 (zip (u_inds m) (v_inds m))
                 (\<lambda>p. 0)) (\<lambda>localDP.
       Inr (iadd DP (\<lambda>p. (cmod (localDP p))\<^sup>2)))))))))"

definition ComplexOverlapKernelDiskLattice_global_center_func ::
  "KernelDiskLattice \<Rightarrow> pattern \<Rightarrow> real list \<Rightarrow> WPF \<Rightarrow> py_error + pattern" where
  "ComplexOverlapKernelDiskLattice_global_center_func m DP args kw =
     ComplexOverlapKernelDiskLattice_local_center_func m DP
       (global_x0 (static kw) # global_y0 (static kw) # args) kw"

subsection \<open>The pruning rule, in the words of the specification\<close>

text \<open>
  The predicted initial center of the peak \<open>(u, v)\<close>, and the rule "dropped exactly
  when it appears in the exclusion list or its predicted initial center falls
  outside \<open>[0, Q_Nx] \<times> [0, Q_Ny]\<close>". The constructors are compared with this rule.
\<close>

definition predicted_center :: "real \<times> real \<Rightarrow> real \<times> real \<times> real \<times> real \<Rightarrow> int \<times> int \<Rightarrow> real \<times> real" where
  "predicted_center c0 lv uv =
     (fst c0 + real_of_int (fst uv) * fst lv + real_of_int (snd uv) * fst (snd (snd lv)),
      snd c0 + real_of_int (fst uv) * fst (snd lv) + real_of_int (snd uv) * snd (snd (snd lv)))"

definition dropped ::
  "real \<times> real \<Rightarrow> real \<times> real \<times> real \<times> real \<Rightarrow> nat \<Rightarrow> nat \<Rightarrow> (int \<times> int) list \<Rightarrow> int \<times> int \<Rightarrow> bool" where
  "dropped c0 lv qnx qny exclude_indices uv \<longleftrightarrow>
     uv \<in> set exclude_indices \<or>
     outside (fst (predicted_center c0 lv uv)) (snd (predicted_center c0 lv uv)) qnx qny"

text \<open>The key of a peak's intensity parameter, and the test for such keys.\<close>

definition intensity_key :: "int \<times> int \<Rightarrow> pkey" where
  "intensity_key uv = K_peak_intensity (fst uv) (snd uv)"

fun is_intensity_key :: "pkey \<Rightarrow> bool" where
  "is_intensity_key (K_peak_intensity u v) = True"
| "is_intensity_key k = False"

subsection \<open>Concrete inputs\<close>

text \<open>
  A 4 x 4 pattern whose meshes are the pixel indices, with the center at the origin,
  and a driver over it whose distance helper is the Euclidean one.
\<close>

definition ex_static :: static_data where
  "ex_static = \<lparr> xArray = (\<lambda>p. real (fst p)), yArray = (\<lambda>p. real (snd p)),
                  global_x0 = 0, global_y0 = 0, Q_Nx = 4, Q_Ny = 4 \<rparr>"

definition ex_WPF :: WPF where
  "ex_WPF = \<lparr> coordinate_model = BaseModel_init 0 0 ''Globals'', static = ex_static,
               get_distance = euclid_distance ex_static \<rparr>"

text \<open>
  The Gaussian ring \<^verbatim>\<open>GaussianRing(WPF, 1.0, 1.0, 1.0)\<close> after the driver has given
  its parameters the offsets 2, 3, 4 (and 0, 1 to the shared center).
\<close>

definition ex_ring :: WPFModelPrototype where
  "ex_ring =
     \<lparr> name = ''Gaussian Ring'',
       params = [(K_radius, (Parameter1 1)\<lparr>offset := Some 2\<rparr>),
                 (K_sigma, (Parameter1 1)\<lparr>offset := Some 3\<rparr>),
                 (K_intensity, (Parameter1 1)\<lparr>offset := Some 4\<rparr>),
                 (K_x_center, (Parameter1 0)\<lparr>offset := Some 0\<rparr>),
                 (K_y_center, (Parameter1 0)\<lparr>offset := Some 1\<rparr>)],
       nParams = 5, hasJacobian = False, model_type = AMORPHOUS \<rparr>"

text \<open>
  A coherent kernel lattice over that pattern: a constant probe kernel, unit lattice
  vectors, \<open>u_max = v_max = 1\<close>, nothing excluded.
\<close>

definition ex_cok :: "py_error + KernelDiskLattice" where
  "ex_cok = ComplexOverlapKernelDiskLattice_init ex_WPF (\<lambda>p. 1) 1 0 0 1 1 1 1 []
              ''Complex Overlapped Disk Lattice''"

text \<open>
  Two sub-expressions of \<^verbatim>\<open>SyntheticDiskLattice.__init__\<close>, named for the proofs: the
  dictionary before the peaks are added, and the optional radius and width entries
  added after them.
\<close>

definition SDL_ps1 :: "Parameter \<Rightarrow> Parameter \<Rightarrow> real \<Rightarrow> real \<Rightarrow> real \<Rightarrow> real \<Rightarrow> pdict" where
  "SDL_ps1 xc yc ux uy vx vy =
     dict_set (dict_set (dict_set (dict_set (dict_set (dict_set [] K_x_center xc) K_y_center yc)
       K_ux (Parameter1 ux)) K_uy (Parameter1 uy)) K_vx (Parameter1 vx)) K_vy (Parameter1 vy)"

definition SDL_tail :: "bool \<Rightarrow> bool \<Rightarrow> real \<Rightarrow> real \<Rightarrow> pdict \<Rightarrow> pdict" where
  "SDL_tail rr rw R w ps2 =
     (let ps3 = (if rr then dict_set ps2 K_disk_radius (Parameter1 R) else ps2)
      in if rw then dict_set ps3 K_edge_width (Parameter1 w) else ps3)"

text \<open>
  Two disk lattices over the 4 x 4 pattern, with unit lattice vectors and
  \<open>u_max = v_max = 1\<close>: one built from the index ranges with \<open>(1, 1)\<close> excluded, one
  built from the inclusion list \<open>[(9, 9)]\<close> with \<open>(9, 9)\<close> also excluded.
\<close>

definition ex_sdl :: "py_error + SyntheticDiskLattice" where
  "ex_sdl = SyntheticDiskLattice_init ex_WPF 1 0 0 1 3 1 1 1 1 False False True 0 0 [(1, 1)] None
              ''Synthetic Disk Lattice''"

definition ex_sdl_incl :: "py_error + SyntheticDiskLattice" where
  "ex_sdl_incl = SyntheticDiskLattice_init ex_WPF 1 0 0 1 3 1 1 1 1 False False True 0 0 [(9, 9)]
                   (Some [(9, 9)]) ''Synthetic Disk Lattice''"

text \<open>
  A disk lattice with the single peak \<open>(0, 0)\<close>, radius 1 and edge width 4, neither
  refined, sharing the global center, after the driver has assigned the offsets
  0 to 6; and a parameter vector for it with center \<open>(0, 0)\<close>, unit lattice vectors
  and peak intensity 2.
\<close>

definition ex_disk :: SyntheticDiskLattice where
  "ex_disk =
     \<lparr> name = ''Synthetic Disk Lattice'',
       params = [(K_x_center, (Parameter1 0)\<lparr>offset := Some 0\<rparr>),
                 (K_y_center, (Parameter1 0)\<lparr>offset := Some 1\<rparr>),
                 (K_ux, (Parameter1 1)\<lparr>offset := Some 2\<rparr>),
                 (K_uy, (Parameter1 0)\<lparr>offset := Some 3\<rparr>),
                 (K_vx, (Parameter1 0)\<lparr>offset := Some 4\<rparr>),
                 (K_vy, (Parameter1 1)\<lparr>offset := Some 5\<rparr>),
                 (K_peak_intensity 0 0, (Parameter1 2)\<lparr>offset := Some 6\<rparr>)],
       nParams = 7, hasJacobian = True, model_type = LATTICE,
       u_inds = [0], v_inds = [0],
       disk_radius = 1, disk_width = 4, refine_radius = False, refine_width = False \<rparr>"

definition ex_x :: "real list" where
  "ex_x = [0, 0, 1, 0, 0, 1, 2]"

subsection \<open>The kernel-lattice contributions, in the words of the specification\<close>

text \<open>
  The position of the peak \<open>(u, v)\<close> for the positional arguments
  \<open>args = (x0, y0, ux, uy, vx, vy, ...)\<close>.
\<close>

definition peak_x :: "real list \<Rightarrow> int \<times> int \<Rightarrow> real" where
  "peak_x args uv = args ! 0 + (real_of_int (fst uv) * (args ! 2)) + (real_of_int (snd uv) * (args ! 4))"

definition peak_y :: "real list \<Rightarrow> int \<times> int \<Rightarrow> real" where
  "peak_y args uv = args ! 1 + (real_of_int (fst uv) * (args ! 3)) + (real_of_int (snd uv) * (args ! 5))"

text \<open>
  Incoherent variant: "the sum over peaks of intensity\_peak times the squared
  magnitude of the shifted kernel". The intensity of the \<open>i\<close>-th retained peak is
  argument \<open>i + 6\<close>.
\<close>

definition spec_incoherent :: "KernelDiskLattice \<Rightarrow> real list \<Rightarrow> pixel \<Rightarrow> real" where
  "spec_incoherent m args p =
     (\<Sum>iuv\<leftarrow>enumerate 0 (zip (u_inds m) (v_inds m)).
        args ! (fst iuv + 6)
        * (cmod (shifted_kernel m (peak_x args (snd iuv)) (peak_y args (snd iuv)) p))\<^sup>2)"

text \<open>
  Coherent variant: "complex amplitudes intensity\_peak\^{}(1/2) exp(i phase\_peak)
  |shifted\_kernel| are summed in the complex domain before squaring the magnitude
  once". The intensity and phase of the \<open>i\<close>-th retained peak are the arguments
  \<open>2 i + 6\<close> and \<open>2 i + 7\<close>.
\<close>

definition spec_coherent :: "KernelDiskLattice \<Rightarrow> real list \<Rightarrow> pixel \<Rightarrow> real" where
  "spec_coherent m args p =
     (cmod (\<Sum>iuv\<leftarrow>enumerate 0 (zip (u_inds m) (v_inds m)).
        complex_of_real (sqrt (args ! (2 * fst iuv + 6)))
        * exp (\<i> * complex_of_real (args ! (2 * fst iuv + 7)))
        * complex_of_real
            (cmod (shifted_kernel m (peak_x args (snd iuv)) (peak_y args (snd iuv)) p))))\<^sup>2"

text \<open>
  A 1 x 1 pattern, and over it an incoherent and a coherent kernel lattice, each
  with a unit probe kernel and the single peak \<open>(0, 0)\<close>.
\<close>

definition ex_WPF1 :: WPF where
  "ex_WPF1 = \<lparr> coordinate_model = BaseModel_init 0 0 ''Globals'',
                static = \<lparr> xArray = (\<lambda>p. real (fst p)), yArray = (\<lambda>p. real (snd p)),
                           global_x0 = 0, global_y0 = 0, Q_Nx = 1, Q_Ny = 1 \<rparr>,
                get_distance = euclid_distance ex_static \<rparr>"

definition ex_kdl :: "py_error + KernelDiskLattice" where
  "ex_kdl = KernelDiskLattice_init ex_WPF1 (\<lambda>p. 1) 1 0 0 1 0 0 1 [] ''Custom Kernel Disk Lattice''"

definition ex_cok1 :: "py_error + KernelDiskLattice" where
  "ex_cok1 = ComplexOverlapKernelDiskLattice_init ex_WPF1 (\<lambda>p. 1) 1 0 0 1 0 0 1 []
               ''Complex Overlapped Disk Lattice''"

section \<open>Properties\<close>

subsection \<open>Helper facts\<close>

lemma iadd_zeros: "iadd zeros a = a"
  by (simp add: iadd_def zeros_def)

lemma iadd_assoc: "iadd (iadd DP a) b = iadd DP (iadd a b)"
  by (simp add: iadd_def fun_eq_iff)

lemma bind_err_assoc: "bind_err (bind_err m f) g = bind_err m (\<lambda>v. bind_err (f v) g)"
  by (cases m) (simp_all add: bind_err_def)

lemma bind_err_Inr [simp]: "bind_err (Inr v) f = f v"
  by (simp add: bind_err_def)

lemma bind_err_Inl [simp]: "bind_err (Inl e) f = Inl e"
  by (simp add: bind_err_def)

lemma SDL_func_loop_adds:
  "SDL_func_loop ps x kw c lv radius width peaks DP =
   bind_err (SDL_func_loop ps x kw c lv radius width peaks zeros) (\<lambda>k. Inr (iadd DP k))"
proof (induction peaks arbitrary: DP)
  case Nil
  show ?case by (simp add: iadd_def zeros_def)
next
  case (Cons pk rest)
  obtain u v where pk: "pk = (u, v)" by (cases pk)
  show ?case
  proof (cases "x_at x ps (K_peak_intensity u v)")
    case (Inl e)
    then show ?thesis by (simp add: pk)
  next
    case (Inr a)
    show ?thesis
      apply (simp add: pk Inr Let_def)
      apply (subst Cons.IH)
      apply (subst (2) Cons.IH)
      apply (simp add: bind_err_assoc iadd_assoc iadd_zeros)
      done
  qed
qed


lemma add_in_place_Inr: "Inr (iadd DP a) = bind_err (Inr (iadd zeros a)) (\<lambda>k. Inr (iadd DP k))"
  by (simp add: iadd_zeros)

lemma BaseModel_func_adds:
  "BaseModel_func m DP x = bind_err (BaseModel_func m zeros x) (\<lambda>k. Inr (iadd DP k))"
  by (simp add: BaseModel_func_def iadd_def zeros_def)

lemma DCBackground_func_adds:
  "DCBackground_func m DP x kw = bind_err (DCBackground_func m zeros x kw) (\<lambda>k. Inr (iadd DP k))"
  by (cases "x_at x (params m) K_DC_Level") (simp_all add: DCBackground_func_def iadd_def zeros_def)

lemma GaussianBackground_func_adds:
  "GaussianBackground_func m DP x kw =
   bind_err (GaussianBackground_func m zeros x kw) (\<lambda>k. Inr (iadd DP k))"
  by (simp add: GaussianBackground_func_def bind_err_assoc iadd_zeros)

lemma GaussianRing_func_adds:
  "GaussianRing_func m DP x kw = bind_err (GaussianRing_func m zeros x kw) (\<lambda>k. Inr (iadd DP k))"
  by (simp add: GaussianRing_func_def WPFModelPrototype_func_def)

lemma GaussianRing_global_center_func_adds:
  "GaussianRing_global_center_func m DP x kw =
   bind_err (GaussianRing_global_center_func m zeros x kw) (\<lambda>k. Inr (iadd DP k))"
  by (simp add: GaussianRing_global_center_func_def bind_err_assoc)

lemma SyntheticDiskLattice_func_adds:
  "SyntheticDiskLattice_func m DP x kw =
   bind_err (SyntheticDiskLattice_func m zeros x kw) (\<lambda>k. Inr (iadd DP k))"
  unfolding SyntheticDiskLattice_func_def bind_err_assoc
  by (subst SDL_func_loop_adds) (rule refl)

lemma SyntheticDiskMoire_func_adds:
  "SyntheticDiskMoire_func m DP x kw =
   bind_err (SyntheticDiskMoire_func m zeros x kw) (\<lambda>k. Inr (iadd DP k))"
  by (simp add: SyntheticDiskMoire_func_def iadd_def zeros_def)

lemma KDL_func_loop_adds:
  "KDL_func_loop m args c lv i peaks DP =
   bind_err (KDL_func_loop m args c lv i peaks zeros) (\<lambda>k. Inr (iadd DP k))"
proof (induction peaks arbitrary: DP i)
  case Nil
  show ?case by (simp add: iadd_def zeros_def)
next
  case (Cons pk rest)
  obtain u v where pk: "pk = (u, v)" by (cases pk)
  show ?case
  proof (cases "arg_at args (i + 6)")
    case (Inl e)
    then show ?thesis by (simp add: pk)
  next
    case (Inr a)
    show ?thesis
      apply (simp add: pk Inr Let_def)
      apply (subst Cons.IH)
      apply (subst (2) Cons.IH)
      apply (simp add: bind_err_assoc iadd_assoc iadd_zeros)
      done
  qed
qed

lemma KernelDiskLattice_local_center_func_adds:
  "KernelDiskLattice_local_center_func m DP args kw =
   bind_err (KernelDiskLattice_local_center_func m zeros args kw) (\<lambda>k. Inr (iadd DP k))"
  unfolding KernelDiskLattice_local_center_func_def bind_err_assoc
  by (subst KDL_func_loop_adds) (rule refl)

lemma KernelDiskLattice_global_center_func_adds:
  "KernelDiskLattice_global_center_func m DP args kw =
   bind_err (KernelDiskLattice_global_center_func m zeros args kw) (\<lambda>k. Inr (iadd DP k))"
  unfolding KernelDiskLattice_global_center_func_def
  by (rule KernelDiskLattice_local_center_func_adds)

lemma ComplexOverlapKernelDiskLattice_local_center_func_adds:
  "ComplexOverlapKernelDiskLattice_local_center_func m DP args kw =
   bind_err (ComplexOverlapKernelDiskLattice_local_center_func m zeros args kw)
     (\<lambda>k. Inr (iadd DP k))"
  by (simp add: ComplexOverlapKernelDiskLattice_local_center_func_def bind_err_assoc iadd_zeros)

lemma ComplexOverlapKernelDiskLattice_global_center_func_adds:
  "ComplexOverlapKernelDiskLattice_global_center_func m DP args kw =
   bind_err (ComplexOverlapKernelDiskLattice_global_center_func m zeros args kw)
     (\<lambda>k. Inr (iadd DP k))"
  unfolding ComplexOverlapKernelDiskLattice_global_center_func_def
  by (rule ComplexOverlapKernelDiskLattice_local_center_func_adds)

subsection \<open>Additivity of the forward functions\<close>

text \<open>
  C1: every forward function of the file only adds into the accumulator. Called on
  an accumulator \<open>DP\<close>, it returns \<open>DP\<close> plus what it returns on the zero pattern, and
  it raises on \<open>DP\<close> exactly the error it raises on the zero pattern: neither the
  contribution nor the failure depends on the accumulator's contents. This holds for
  the coordinate model, the constant and Gaussian backgrounds, the Gaussian ring
  (both the inherited \<^verbatim>\<open>func\<close> and \<^verbatim>\<open>global_center_func\<close>), the disk lattice, the
  Moire stub and the two kernel lattices (\<^verbatim>\<open>local_center_func\<close> and
  \<^verbatim>\<open>global_center_func\<close>).
\<close>

theorem C1_forward_functions_add_in_place:
  "BaseModel_func b DP x = bind_err (BaseModel_func b zeros x) (\<lambda>k. Inr (iadd DP k)) \<and>
   DCBackground_func b DP x kw =
     bind_err (DCBackground_func b zeros x kw) (\<lambda>k. Inr (iadd DP k)) \<and>
   GaussianBackground_func b DP x kw =
     bind_err (GaussianBackground_func b zeros x kw) (\<lambda>k. Inr (iadd DP k)) \<and>
   GaussianRing_func b DP x kw =
     bind_err (GaussianRing_func b zeros x kw) (\<lambda>k. Inr (iadd DP k)) \<and>
   GaussianRing_global_center_func b DP x kw =
     bind_err (GaussianRing_global_center_func b zeros x kw) (\<lambda>k. Inr (iadd DP k)) \<and>
   SyntheticDiskLattice_func l DP x kw =
     bind_err (SyntheticDiskLattice_func l zeros x kw) (\<lambda>k. Inr (iadd DP k)) \<and>
   SyntheticDiskMoire_func b DP x kw =
     bind_err (SyntheticDiskMoire_func b zeros x kw) (\<lambda>k. Inr (iadd DP k)) \<and>
   KernelDiskLattice_local_center_func m DP x kw =
     bind_err (KernelDiskLattice_local_center_func m zeros x kw) (\<lambda>k. Inr (iadd DP k)) \<and>
   KernelDiskLattice_global_center_func m DP x kw =
     bind_err (KernelDiskLattice_global_center_func m zeros x kw) (\<lambda>k. Inr (iadd DP k)) \<and>
   ComplexOverlapKernelDiskLattice_local_center_func m DP x kw =
     bind_err (ComplexOverlapKernelDiskLattice_local_center_func m zeros x kw)
       (\<lambda>k. Inr (iadd DP k)) \<and>
   ComplexOverlapKernelDiskLattice_global_center_func m DP x kw =
     bind_err (ComplexOverlapKernelDiskLattice_global_center_func m zeros x kw)
       (\<lambda>k. Inr (iadd DP k))"
  by (intro conjI BaseModel_func_adds DCBackground_func_adds GaussianBackground_func_adds
      GaussianRing_func_adds GaussianRing_global_center_func_adds
      SyntheticDiskLattice_func_adds SyntheticDiskMoire_func_adds
      KernelDiskLattice_local_center_func_adds KernelDiskLattice_global_center_func_adds
      ComplexOverlapKernelDiskLattice_local_center_func_adds
      ComplexOverlapKernelDiskLattice_global_center_func_adds)

subsection \<open>Parameter construction\<close>

text \<open>
  C8, as stated, fails: a Parameter with lower bound 1 and upper bound -1 is
  constructed without error.
\<close>

theorem C8_inverted_bounds_accepted:
  "(-1 :: real) < 1 \<and>
   Parameter_init (Scalar 0) (Some (Fin 1)) (Some (Fin (-1))) =
     Inr \<lparr> initial_value = 0, lower_bound = Fin 1, upper_bound = Fin (-1), offset = None \<rparr>"
  by (simp add: set_params_def)

text \<open>
  C8, amended: constructing a Parameter from a scalar value never fails and never
  compares the bounds; whatever bounds are given (also a lower bound above the upper
  one) are stored unchanged, and a missing bound becomes -inf or +inf. A value with
  a tolerance gives the bounds value - tolerance and value + tolerance, whatever the
  sign of the tolerance.
\<close>

theorem C8_bounds_stored_unchecked:
  "Parameter_init (Scalar v) (Some l) (Some h) =
     Inr \<lparr> initial_value = v, lower_bound = l, upper_bound = h, offset = None \<rparr> \<and>
   Parameter_init (Scalar v) None None =
     Inr \<lparr> initial_value = v, lower_bound = MInf, upper_bound = PInf, offset = None \<rparr> \<and>
   Parameter_init (Seq [v, t]) lo hi =
     Inr \<lparr> initial_value = v, lower_bound = Fin (v - t), upper_bound = Fin (v + t), offset = None \<rparr>"
  by (simp add: set_params_def)

subsection \<open>The global coordinate model\<close>

text \<open>
  C10: the global coordinate model contributes nothing. Its forward function returns
  the accumulator unchanged, its Jacobian function returns the Jacobian buffer
  unchanged, it reports hasJacobian, and it owns exactly the two center parameters,
  with the initial values given.
\<close>

theorem C10_BaseModel_is_noop:
  "BaseModel_func (BaseModel_init x0 y0 nm) DP x = Inr DP \<and>
   BaseModel_jacobian (BaseModel_init x0 y0 nm) J x = Inr J \<and>
   hasJacobian (BaseModel_init x0 y0 nm) = True \<and>
   nParams (BaseModel_init x0 y0 nm) = 2 \<and>
   map fst (params (BaseModel_init x0 y0 nm)) = [K_x_center, K_y_center] \<and>
   map (initial_value \<circ> snd) (params (BaseModel_init x0 y0 nm)) = [x0, y0] \<and>
   model_type (BaseModel_init x0 y0 nm) = DUMMY"
  by (simp add: BaseModel_func_def BaseModel_jacobian_def BaseModel_init_def
      WPFModelPrototype_init_def dict_set_def Parameter1_def set_params_def)

subsection \<open>Pruning of the candidate peaks\<close>

lemma keep_unmasked_map:
  "keep_unmasked (map f prs) (map P prs) = map f (filter (\<lambda>q. \<not> P q) prs)"
  by (induction prs) (simp_all add: keep_unmasked_def)

lemma zip_fst_snd: "zip (map fst xs) (map snd xs) = xs"
  by (induction xs) simp_all

lemma mgrid_zip: "zip (mgrid_u a b) (mgrid_v a b) = List.product [- a .. a] [- b .. b]"
  by (simp add: mgrid_u_def mgrid_v_def zip_fst_snd)

lemma SDL_prune_mask:
  "snd (SDL_prune c0 lv qnx qny ex i0 prs ps) = map (dropped c0 lv qnx qny ex) prs"
  by (induction prs arbitrary: ps)
    (auto simp: Let_def dropped_def predicted_center_def)

lemma KDL_prune_mask:
  "snd (KDL_prune c0 lv qnx qny ex i0 prs ps) = map (dropped c0 lv qnx qny ex) prs"
  by (induction prs arbitrary: ps)
    (auto simp: Let_def dropped_def predicted_center_def)

lemma COK_prune_mask:
  "snd (COK_prune c0 lv qnx qny ex i0 prs ps) = map (dropped c0 lv qnx qny ex) prs"
  by (induction prs arbitrary: ps)
    (auto simp: Let_def dropped_def predicted_center_def)


lemma COK_prune_phase_kept:
  assumes c: "set_params 0 (Some (Fin 0)) (Some (Fin 0)) = c"
  shows "map_of ps (K_peak_phase 0 0) = Some c \<Longrightarrow>
   map_of (fst (COK_prune c0 lv qnx qny ex i0 prs ps)) (K_peak_phase 0 0) = Some c"
proof (induction prs arbitrary: ps)
  case Nil
  then show ?case by simp
next
  case (Cons pk rest)
  obtain u v where pk: "pk = (u, v)" by (cases pk)
  show ?case
    using Cons.prems
    by (auto simp: pk Let_def dict_set_def AList.update_conv' c intro!: Cons.IH)
qed

lemma COK_prune_phase_clamped:
  assumes c: "set_params 0 (Some (Fin 0)) (Some (Fin 0)) = c"
  shows "(0, 0) \<in> set prs \<Longrightarrow> \<not> dropped c0 lv qnx qny ex (0, 0) \<Longrightarrow>
   map_of (fst (COK_prune c0 lv qnx qny ex i0 prs ps)) (K_peak_phase 0 0) = Some c"
proof (induction prs arbitrary: ps)
  case Nil
  then show ?case by simp
next
  case (Cons pk rest)
  obtain u v where pk: "pk = (u, v)" by (cases pk)
  show ?case
  proof (cases "u = 0 \<and> v = 0")
    case True
    have nd: "(0, 0) \<notin> set ex" "\<not> outside (fst c0) (snd c0) qnx qny"
      using Cons.prems(2) by (simp_all add: dropped_def predicted_center_def)
    show ?thesis
      using True nd
      by (auto simp: pk Let_def dict_set_def AList.update_conv' c
          intro!: COK_prune_phase_kept[OF c])
  next
    case False
    then have "(0, 0) \<in> set rest" using Cons.prems(1) pk by auto
    then show ?thesis
      using Cons.IH Cons.prems(2) by (simp add: pk Let_def)
  qed
qed

lemma mgrid_1_1:
  "mgrid_u 1 1 = [-1, -1, -1, 0, 0, 0, 1, 1, 1]"
  "mgrid_v 1 1 = [-1, 0, 1, -1, 0, 1, -1, 0, 1]"
  by code_simp+

lemma ex_cok_inds:
  "map_sum id u_inds ex_cok = Inr [0, 0, 1, 1]"
  "map_sum id v_inds ex_cok = Inr [0, 1, 0, 1]"
  by (simp_all add: ex_cok_def ComplexOverlapKernelDiskLattice_init_def kernel_lattice_init_def
      ex_WPF_def ex_static_def Let_def mgrid_1_1 outside_def keep_unmasked_def)

subsection \<open>The Gaussian ring\<close>

lemma GaussianRing_init_keys:
  assumes "GaussianRing_init W radius sigma intensity gc x0 y0 nm = Inr m"
  shows "map fst (params m) = [K_radius, K_sigma, K_intensity, K_x_center, K_y_center]"
    and "hasJacobian m = False"
  using assms
  by (auto simp: GaussianRing_init_def Let_def bind_err_def dict_set_def
      WPFModelPrototype_init_def split: sum.splits if_splits)

lemma x_at_missing: "k \<notin> set (map fst d) \<Longrightarrow> x_at x d k = Inl KeyError"
  by (simp add: x_at_def dict_get_def map_of_eq_None_iff[THEN iffD2])

lemma bind_err_never_Inr: "(\<And>v. \<exists>e. f v = Inl e) \<Longrightarrow> \<exists>e. bind_err m f = Inl e"
  by (cases m) simp_all

text \<open>
  C7 asks that the Gaussian ring's forward function evaluates without error and adds
  level * exp(-(r - radius)^2 / (2 sigma^2)), level being the value of the registered
  intensity parameter. The code does not do that: the constructor registers the key
  "intensity" and both functions read the key "level". For every ring the
  constructor builds, whatever offsets its parameters are given afterwards,
  \<^verbatim>\<open>global_center_func\<close> and \<^verbatim>\<open>global_center_jacobian\<close> raise, \<^verbatim>\<open>func\<close> is the
  prototype's and raises \<^verbatim>\<open>NotImplementedError\<close>, and the ring reports no Jacobian.
\<close>

theorem C7_GaussianRing_functions_raise:
  assumes "GaussianRing_init W radius sigma intensity gc x0 y0 nm = Inr m"
    and "map fst (params m') = map fst (params m)"
  shows "(\<exists>e. GaussianRing_global_center_func m' DP x kw = Inl e) \<and>
         (\<exists>e. GaussianRing_global_center_jacobian m' J x kw = Inl e) \<and>
         GaussianRing_func m' DP x kw = Inl NotImplementedError \<and>
         hasJacobian m = False"
proof -
  have "K_level \<notin> set (map fst (params m'))"
    using assms GaussianRing_init_keys(1) by simp
  then have lv: "x_at x (params m') K_level = Inl KeyError"
    by (rule x_at_missing)
  have 1: "\<exists>e. GaussianRing_global_center_func m' DP x kw = Inl e"
    unfolding GaussianRing_global_center_func_def
    by (intro bind_err_never_Inr) (simp add: lv)
  have 2: "\<exists>e. GaussianRing_global_center_jacobian m' J x kw = Inl e"
    unfolding GaussianRing_global_center_jacobian_def
    by (intro bind_err_never_Inr) (simp add: lv)
  show ?thesis
    using 1 2 GaussianRing_init_keys(2)[OF assms(1)]
    by (simp add: GaussianRing_func_def WPFModelPrototype_func_def)
qed

theorem C7_GaussianRing_functions_raise_witness:
  "GaussianRing_init ex_WPF 1 1 1 True 0 0 ''Gaussian Ring'' =
     Inr (ex_ring\<lparr>params := map (\<lambda>kp. (fst kp, (snd kp)\<lparr>offset := None\<rparr>)) (params ex_ring)\<rparr>) \<and>
   (\<exists>e. GaussianRing_global_center_func ex_ring zeros [0, 0, 1, 1, 1] ex_WPF = Inl e) \<and>
   (\<exists>e. GaussianRing_global_center_jacobian ex_ring zerosJ [0, 0, 1, 1, 1] ex_WPF = Inl e) \<and>
   GaussianRing_func ex_ring zeros [0, 0, 1, 1, 1] ex_WPF = Inl NotImplementedError \<and>
   GaussianRing_global_center_func ex_ring zeros [0, 0, 1, 1, 1] ex_WPF = Inl KeyError"
proof -
  have e: "GaussianRing_global_center_func ex_ring zeros [0, 0, 1, 1, 1] ex_WPF = Inl KeyError"
    by (simp add: GaussianRing_global_center_func_def ex_ring_def x_at_def dict_get_def
        at_offset_def)
  have c: "GaussianRing_init ex_WPF 1 1 1 True 0 0 ''Gaussian Ring'' =
     Inr (ex_ring\<lparr>params := map (\<lambda>kp. (fst kp, (snd kp)\<lparr>offset := None\<rparr>)) (params ex_ring)\<rparr>)"
    by (simp add: GaussianRing_init_def ex_WPF_def BaseModel_init_def WPFModelPrototype_init_def
        dict_set_def dict_get_def ex_ring_def Parameter1_def set_params_def)
  have k: "map fst (params ex_ring) =
     map fst (params (ex_ring\<lparr>params := map (\<lambda>kp. (fst kp, (snd kp)\<lparr>offset := None\<rparr>)) (params ex_ring)\<rparr>))"
    by (simp add: ex_ring_def)
  show ?thesis
    using c e C7_GaussianRing_functions_raise[OF c k] by simp
qed

subsection \<open>The phase of the direct beam\<close>

text \<open>
  C9: in every coherent kernel lattice whose (0,0) peak is among the retained
  peaks, the parameter under the key of the (0,0) phase has the initial value 0 and
  lower bound = upper bound = 0.
\<close>

theorem C9_direct_beam_phase_clamped:
  assumes "ComplexOverlapKernelDiskLattice_init W probe_kernel ux uy vx vy u_max v_max
             intensity_0 exclude_indices nm = Inr m"
    and "(0, 0) \<in> set (zip (u_inds m) (v_inds m))"
  shows "dict_get (params m) (K_peak_phase 0 0) =
           Inr \<lparr> initial_value = 0, lower_bound = Fin 0, upper_bound = Fin 0, offset = None \<rparr>"
proof -
  let ?c0 = "(global_x0 (static W), global_y0 (static W))"
  let ?lv = "(ux, uy, vx, vy)"
  let ?prs = "zip (mgrid_u u_max v_max) (mgrid_v u_max v_max)"
  let ?ps1 = "dict_set (dict_set (dict_set (dict_set [] K_ux (Parameter1 ux))
                  K_uy (Parameter1 uy)) K_vx (Parameter1 vx)) K_vy (Parameter1 vy)"
  let ?r = "COK_prune ?c0 ?lv (Q_Nx (static W)) (Q_Ny (static W)) exclude_indices intensity_0 ?prs ?ps1"
  from assms(1) have pm: "params m = fst ?r"
    and um: "u_inds m = keep_unmasked (mgrid_u u_max v_max) (snd ?r)"
    and vm: "v_inds m = keep_unmasked (mgrid_v u_max v_max) (snd ?r)"
    by (auto simp: ComplexOverlapKernelDiskLattice_init_def kernel_lattice_init_def Let_def
        WPFModelPrototype_init_def split: if_splits)
  have us: "mgrid_u u_max v_max = map fst ?prs" and vs: "mgrid_v u_max v_max = map snd ?prs"
    by (simp_all add: mgrid_u_def mgrid_v_def zip_fst_snd)
  have "zip (u_inds m) (v_inds m) =
        filter (\<lambda>q. \<not> dropped ?c0 ?lv (Q_Nx (static W)) (Q_Ny (static W)) exclude_indices q) ?prs"
    unfolding um vm COK_prune_mask
    by (subst us, subst keep_unmasked_map, subst vs, subst keep_unmasked_map)
      (simp add: zip_fst_snd)
  with assms(2) have "(0, 0) \<in> set ?prs"
    and "\<not> dropped ?c0 ?lv (Q_Nx (static W)) (Q_Ny (static W)) exclude_indices (0, 0)"
    by simp_all
  then have "map_of (fst ?r) (K_peak_phase 0 0) = Some (set_params 0 (Some (Fin 0)) (Some (Fin 0)))"
    by (rule COK_prune_phase_clamped[OF refl])
  then show ?thesis
    by (simp add: pm dict_get_def set_params_def)
qed

theorem C9_direct_beam_phase_clamped_witness:
  "map_sum id (\<lambda>m. zip (u_inds m) (v_inds m)) ex_cok = Inr [(0, 0), (0, 1), (1, 0), (1, 1)] \<and>
   bind_err ex_cok (\<lambda>m. dict_get (params m) (K_peak_phase 0 0)) =
     Inr \<lparr> initial_value = 0, lower_bound = Fin 0, upper_bound = Fin 0, offset = None \<rparr>"
proof -
  obtain m where m: "ex_cok = Inr m"
  proof (cases ex_cok)
    case (Inl e)
    from ex_cok_inds(1)[unfolded Inl] show ?thesis by simp
  next
    case (Inr m)
    then show ?thesis by (rule that)
  qed
  have u: "u_inds m = [0, 0, 1, 1]" and v: "v_inds m = [0, 1, 0, 1]"
    using ex_cok_inds by (simp_all add: m)
  have "(0, 0) \<in> set (zip (u_inds m) (v_inds m))"
    by (simp add: u v)
  from C9_direct_beam_phase_clamped[OF m[unfolded ex_cok_def] this]
  show ?thesis by (simp add: m u v)
qed

subsection \<open>Which peaks the disk lattice retains\<close>

lemma intensity_key_inj: "intensity_key a = intensity_key b \<longleftrightarrow> a = b"
  by (cases a, cases b) (simp add: intensity_key_def)

lemma is_intensity_key_intensity_key [simp]: "is_intensity_key (intensity_key uv)"
  by (simp add: intensity_key_def)

lemma dict_set_keys_fresh:
  "k \<notin> set (map fst d) \<Longrightarrow> map fst (dict_set d k v) = map fst d @ [k]"
  by (simp add: dict_set_def AList.update_keys)

lemma dict_set_keys_other:
  "\<not> is_intensity_key k \<Longrightarrow>
   filter is_intensity_key (map fst (dict_set d k v)) = filter is_intensity_key (map fst d)"
  by (simp add: dict_set_def AList.update_keys)

lemma dict_set_distinct:
  "distinct (map fst d) \<Longrightarrow> distinct (map fst (dict_set d k v))"
  by (simp add: dict_set_def AList.distinct_update)

lemma dict_set_map_of:
  "map_of (dict_set d k v) k' = (if k' = k then Some v else map_of d k')"
  by (simp add: dict_set_def AList.update_conv')

lemma SDL_prune_keys:
  "distinct prs \<Longrightarrow> (\<forall>uv\<in>set prs. intensity_key uv \<notin> set (map fst ps)) \<Longrightarrow>
   map fst (fst (SDL_prune c0 lv qnx qny ex i0 prs ps)) =
     map fst ps @ map intensity_key (filter (\<lambda>uv. \<not> dropped c0 lv qnx qny ex uv) prs)"
proof (induction prs arbitrary: ps)
  case Nil
  then show ?case by simp
next
  case (Cons pk rest)
  obtain u v where pk: "pk = (u, v)" by (cases pk)
  have d: "distinct rest" and nin: "pk \<notin> set rest"
    using Cons.prems(1) by simp_all
  have fresh: "intensity_key pk \<notin> set (map fst ps)"
    and fresh_rest: "\<forall>uv\<in>set rest. intensity_key uv \<notin> set (map fst ps)"
    using Cons.prems(2) by simp_all
  show ?case
  proof (cases "dropped c0 lv qnx qny ex pk")
    case True
    then show ?thesis
      using Cons.IH[OF d fresh_rest]
      by (auto simp: pk Let_def dropped_def predicted_center_def)
  next
    case False
    let ?ps' = "dict_set ps (K_peak_intensity u v) (Parameter1 i0)"
    have k: "map fst ?ps' = map fst ps @ [intensity_key pk]"
      using fresh dict_set_keys_fresh[of "K_peak_intensity u v" ps]
      by (simp add: pk intensity_key_def)
    have "\<forall>uv\<in>set rest. intensity_key uv \<notin> set (map fst ?ps')"
      using fresh_rest nin by (auto simp: k intensity_key_inj)
    from Cons.IH[OF d this] show ?thesis
      using False k
      by (auto simp: pk Let_def dropped_def predicted_center_def)
  qed
qed

lemma SDL_prune_distinct:
  "distinct (map fst ps) \<Longrightarrow> distinct (map fst (fst (SDL_prune c0 lv qnx qny ex i0 prs ps)))"
  by (induction prs arbitrary: ps) (auto simp: Let_def dict_set_distinct)

lemma SDL_prune_map_of:
  "\<not> is_intensity_key k \<Longrightarrow>
   map_of (fst (SDL_prune c0 lv qnx qny ex i0 prs ps)) k = map_of ps k"
  by (induction prs arbitrary: ps) (auto simp: Let_def dict_set_map_of)

lemma SDL_include_keys:
  "distinct inds \<Longrightarrow> (\<forall>uv\<in>set inds. intensity_key uv \<notin> set (map fst ps)) \<Longrightarrow>
   map fst (SDL_include i0 inds ps) = map fst ps @ map intensity_key inds"
proof (induction inds arbitrary: ps)
  case Nil
  then show ?case by simp
next
  case (Cons ind rest)
  let ?ps' = "dict_set ps (K_peak_intensity (fst ind) (snd ind)) (Parameter1 i0)"
  have k: "map fst ?ps' = map fst ps @ [intensity_key ind]"
    using Cons.prems(2) dict_set_keys_fresh[of "K_peak_intensity (fst ind) (snd ind)" ps]
    by (simp add: intensity_key_def)
  have "\<forall>uv\<in>set rest. intensity_key uv \<notin> set (map fst ?ps')"
    using Cons.prems by (auto simp: k intensity_key_inj)
  with Cons.IH[of ?ps'] Cons.prems(1) show ?case
    by (simp add: k)
qed

lemma dict_set_key_set: "set (map fst (dict_set d k v)) = insert k (set (map fst d))"
  by (auto simp: dict_set_def AList.update_keys)

lemma SDL_include_key_set:
  "set (map fst (SDL_include i0 inds ps)) = set (map fst ps) \<union> intensity_key ` set inds"
proof (induction inds arbitrary: ps)
  case Nil
  show ?case by simp
next
  case (Cons ind rest)
  show ?case
    unfolding SDL_include.simps Cons.IH dict_set_key_set
    by (auto simp: intensity_key_def)
qed

lemma SDL_include_distinct:
  "distinct (map fst ps) \<Longrightarrow> distinct (map fst (SDL_include i0 inds ps))"
  by (induction inds arbitrary: ps) (auto simp: dict_set_distinct)

lemma SDL_include_map_of:
  "\<not> is_intensity_key k \<Longrightarrow> map_of (SDL_include i0 inds ps) k = map_of ps k"
  by (induction inds arbitrary: ps) (auto simp: dict_set_map_of)


lemma bind_err_Inr_iff: "bind_err m f = Inr b \<longleftrightarrow> (\<exists>a. m = Inr a \<and> f a = Inr b)"
  by (cases m) simp_all

lemma SDL_init_Inr:
  assumes "SyntheticDiskLattice_init W ux uy vx vy R w u_max v_max i0 rr rw gc x0 y0 ex incl nm = Inr m"
  shows "\<exists>xc yc.
      (if gc then dict_get (params (coordinate_model W)) K_x_center else Inr (Parameter1 x0)) = Inr xc \<and>
      (if gc then dict_get (params (coordinate_model W)) K_y_center else Inr (Parameter1 y0)) = Inr yc \<and>
      (case incl of
         None \<Rightarrow>
           (let r = SDL_prune (initial_value xc, initial_value yc) (ux, uy, vx, vy)
                      (Q_Nx (static W)) (Q_Ny (static W)) ex i0
                      (zip (mgrid_u u_max v_max) (mgrid_v u_max v_max)) (SDL_ps1 xc yc ux uy vx vy)
            in params m = SDL_tail rr rw R w (fst r) \<and>
               u_inds m = keep_unmasked (mgrid_u u_max v_max) (snd r) \<and>
               v_inds m = keep_unmasked (mgrid_v u_max v_max) (snd r))
       | Some inds \<Rightarrow>
           params m = SDL_tail rr rw R w (SDL_include i0 inds (SDL_ps1 xc yc ux uy vx vy)) \<and>
           u_inds m = map fst inds \<and> v_inds m = map snd inds)"
  using assms
  unfolding SyntheticDiskLattice_init_def bind_err_Inr_iff Let_def SDL_ps1_def SDL_tail_def
  by (cases incl)
    (auto simp: WPFModelPrototype_init_def split: if_splits)


lemma SDL_ps1_keys: "map fst (SDL_ps1 xc yc ux uy vx vy) = [K_x_center, K_y_center, K_ux, K_uy, K_vx, K_vy]"
  by (simp add: SDL_ps1_def dict_set_def)

lemma SDL_ps1_center:
  "map_of (SDL_ps1 xc yc ux uy vx vy) K_x_center = Some xc"
  "map_of (SDL_ps1 xc yc ux uy vx vy) K_y_center = Some yc"
  by (simp_all add: SDL_ps1_def dict_set_def)

lemma SDL_tail_intensity_keys:
  "filter is_intensity_key (map fst (SDL_tail rr rw R w ps)) = filter is_intensity_key (map fst ps)"
  by (simp add: SDL_tail_def Let_def dict_set_keys_other)

lemma SDL_tail_distinct:
  "distinct (map fst ps) \<Longrightarrow> distinct (map fst (SDL_tail rr rw R w ps))"
  by (simp add: SDL_tail_def Let_def dict_set_distinct)

lemma SDL_tail_center:
  "map_of (SDL_tail rr rw R w ps) K_x_center = map_of ps K_x_center"
  "map_of (SDL_tail rr rw R w ps) K_y_center = map_of ps K_y_center"
  by (simp_all add: SDL_tail_def Let_def dict_set_map_of)

lemma filter_intensity_append:
  "filter is_intensity_key (map fst (SDL_ps1 xc yc ux uy vx vy) @ map intensity_key prs) =
   map intensity_key prs"
  by (simp add: SDL_ps1_keys filter_map comp_def)

lemma distinct_mgrid: "distinct (List.product [- a .. a] [- b .. b])"
  by (simp add: distinct_product)

lemma ex_sdl_inds:
  "map_sum id u_inds ex_sdl = Inr [0, 0, 1]"
  "map_sum id v_inds ex_sdl = Inr [0, 1, 0]"
  by (simp_all add: ex_sdl_def SyntheticDiskLattice_init_def
      ex_WPF_def ex_static_def Let_def mgrid_1_1 outside_def keep_unmasked_def
      BaseModel_init_def WPFModelPrototype_init_def dict_set_def dict_get_def Parameter1_def
      set_params_def)

text \<open>
  C6, as stated, fails for an explicit inclusion list: the pair (9, 9) is in the
  exclusion list and its predicted center (9, 9) lies outside the 4 x 4 pattern, yet
  it is retained and owns an Intensity parameter.
\<close>

theorem C6_inclusion_list_not_pruned:
  "dropped (0, 0) (1, 0, 0, 1) 4 4 [(9, 9)] (9, 9) \<and>
   map_sum id u_inds ex_sdl_incl = Inr [9] \<and>
   map_sum id v_inds ex_sdl_incl = Inr [9] \<and>
   bind_err ex_sdl_incl (\<lambda>m. dict_get (params m) (K_peak_intensity 9 9)) = Inr (Parameter1 1)"
  by (simp add: dropped_def ex_sdl_incl_def SyntheticDiskLattice_init_def
      ex_WPF_def ex_static_def Let_def
      BaseModel_init_def WPFModelPrototype_init_def dict_set_def dict_get_def)

text \<open>
  C6, amended. When the constructor succeeds, the dictionary has distinct keys and:
  \<^item> without an inclusion list, the retained index arrays are the pairs of
    \<open>[-u_max, u_max] \<times> [-v_max, v_max]\<close>, in row-major order, that are not dropped,
    a pair being dropped exactly when it is in the exclusion list or its predicted
    initial center lies outside \<open>[0, Q_Nx] \<times> [0, Q_Ny]\<close>; the Intensity keys of the
    dictionary are, in order, the keys of the retained pairs;
  \<^item> with an inclusion list, the retained index arrays are the list as given, with
    no pruning; every listed pair has its Intensity key and there is no other
    Intensity key; when the list has no repeated pair, the Intensity keys are in the
    order of the list.
\<close>

theorem C6_retained_peaks:
  assumes init: "SyntheticDiskLattice_init W ux uy vx vy R w u_max v_max i0 rr rw gc x0 y0
                   ex incl nm = Inr m"
  shows "\<exists>xc yc.
     dict_get (params m) K_x_center = Inr xc \<and> dict_get (params m) K_y_center = Inr yc \<and>
     distinct (map fst (params m)) \<and>
     (case incl of
        None \<Rightarrow>
          u_inds m = map fst (filter (\<lambda>uv. \<not> dropped (initial_value xc, initial_value yc)
                        (ux, uy, vx, vy) (Q_Nx (static W)) (Q_Ny (static W)) ex uv)
                        (List.product [- u_max .. u_max] [- v_max .. v_max])) \<and>
          v_inds m = map snd (filter (\<lambda>uv. \<not> dropped (initial_value xc, initial_value yc)
                        (ux, uy, vx, vy) (Q_Nx (static W)) (Q_Ny (static W)) ex uv)
                        (List.product [- u_max .. u_max] [- v_max .. v_max])) \<and>
          filter is_intensity_key (map fst (params m)) =
            map intensity_key (zip (u_inds m) (v_inds m))
      | Some inds \<Rightarrow>
          u_inds m = map fst inds \<and> v_inds m = map snd inds \<and>
          set (filter is_intensity_key (map fst (params m))) = intensity_key ` set inds \<and>
          (if distinct inds
           then filter is_intensity_key (map fst (params m)) = map intensity_key inds
           else True))"
proof -
  let ?prs = "List.product [- u_max .. u_max] [- v_max .. v_max]"
  from SDL_init_Inr[OF init] obtain xc yc where
    body: "case incl of
         None \<Rightarrow>
           (let r = SDL_prune (initial_value xc, initial_value yc) (ux, uy, vx, vy)
                      (Q_Nx (static W)) (Q_Ny (static W)) ex i0
                      (zip (mgrid_u u_max v_max) (mgrid_v u_max v_max)) (SDL_ps1 xc yc ux uy vx vy)
            in params m = SDL_tail rr rw R w (fst r) \<and>
               u_inds m = keep_unmasked (mgrid_u u_max v_max) (snd r) \<and>
               v_inds m = keep_unmasked (mgrid_v u_max v_max) (snd r))
       | Some inds \<Rightarrow>
           params m = SDL_tail rr rw R w (SDL_include i0 inds (SDL_ps1 xc yc ux uy vx vy)) \<and>
           u_inds m = map fst inds \<and> v_inds m = map snd inds"
    by blast
  let ?c0 = "(initial_value xc, initial_value yc)"
  let ?lv = "(ux, uy, vx, vy)"
  let ?keep = "\<lambda>uv. \<not> dropped ?c0 ?lv (Q_Nx (static W)) (Q_Ny (static W)) ex uv"
  let ?ps1 = "SDL_ps1 xc yc ux uy vx vy"
  have d1: "distinct (map fst ?ps1)"
    by (simp add: SDL_ps1_keys)
  have fresh: "\<forall>uv\<in>set prs. intensity_key uv \<notin> set (map fst ?ps1)" for prs
    by (auto simp: SDL_ps1_keys intensity_key_def)
  show ?thesis
  proof (cases incl)
    case None
    let ?r = "SDL_prune ?c0 ?lv (Q_Nx (static W)) (Q_Ny (static W)) ex i0 ?prs ?ps1"
    from body have pm: "params m = SDL_tail rr rw R w (fst ?r)"
      and um: "u_inds m = keep_unmasked (map fst ?prs) (snd ?r)"
      and vm: "v_inds m = keep_unmasked (map snd ?prs) (snd ?r)"
      by (simp_all add: None Let_def mgrid_zip) (simp_all add: mgrid_u_def mgrid_v_def)
    have u: "u_inds m = map fst (filter ?keep ?prs)"
      unfolding um SDL_prune_mask by (rule keep_unmasked_map)
    have v: "v_inds m = map snd (filter ?keep ?prs)"
      unfolding vm SDL_prune_mask by (rule keep_unmasked_map)
    have keys: "map fst (fst ?r) = map fst ?ps1 @ map intensity_key (filter ?keep ?prs)"
      by (rule SDL_prune_keys[OF distinct_mgrid fresh])
    have k: "filter is_intensity_key (map fst (params m)) = map intensity_key (zip (u_inds m) (v_inds m))"
      unfolding pm SDL_tail_intensity_keys keys filter_intensity_append u v
      by (simp add: zip_fst_snd)
    have dist: "distinct (map fst (params m))"
      unfolding pm by (intro SDL_tail_distinct SDL_prune_distinct d1)
    have cx: "dict_get (params m) K_x_center = Inr xc" and cy: "dict_get (params m) K_y_center = Inr yc"
      by (simp_all add: dict_get_def pm SDL_tail_center SDL_prune_map_of SDL_ps1_center)
    show ?thesis
      using cx cy dist u v k by (auto simp: None)
  next
    case (Some inds)
    let ?ps2 = "SDL_include i0 inds ?ps1"
    from body have pm: "params m = SDL_tail rr rw R w ?ps2"
      and u: "u_inds m = map fst inds" and v: "v_inds m = map snd inds"
      by (simp_all add: Some)
    have ks: "set (filter is_intensity_key (map fst (params m))) = intensity_key ` set inds"
      unfolding pm SDL_tail_intensity_keys
      by (auto simp: SDL_include_key_set SDL_ps1_keys simp del: set_map)
    have kd: "filter is_intensity_key (map fst (params m)) = map intensity_key inds"
      if "distinct inds"
      unfolding pm SDL_tail_intensity_keys SDL_include_keys[OF that fresh]
      by (rule filter_intensity_append)
    have dist: "distinct (map fst (params m))"
      unfolding pm by (intro SDL_tail_distinct SDL_include_distinct d1)
    have cx: "dict_get (params m) K_x_center = Inr xc" and cy: "dict_get (params m) K_y_center = Inr yc"
      by (simp_all add: dict_get_def pm SDL_tail_center SDL_include_map_of SDL_ps1_center)
    show ?thesis
      using cx cy dist u v ks kd by (auto simp: Some)
  qed
qed

theorem C6_retained_peaks_witness:
  "map_sum id u_inds ex_sdl = Inr [0, 0, 1] \<and>
   map_sum id v_inds ex_sdl = Inr [0, 1, 0] \<and>
   map_sum id (\<lambda>m. filter is_intensity_key (map fst (params m))) ex_sdl =
     Inr [K_peak_intensity 0 0, K_peak_intensity 0 1, K_peak_intensity 1 0]"
proof -
  obtain m where m: "ex_sdl = Inr m"
  proof (cases ex_sdl)
    case (Inl e)
    from ex_sdl_inds(1)[unfolded Inl] show ?thesis by simp
  next
    case (Inr m)
    then show ?thesis by (rule that)
  qed
  have u: "u_inds m = [0, 0, 1]" and v: "v_inds m = [0, 1, 0]"
    using ex_sdl_inds by (simp_all add: m)
  from C6_retained_peaks[OF m[unfolded ex_sdl_def]]
  have "filter is_intensity_key (map fst (params m)) = map intensity_key (zip (u_inds m) (v_inds m))"
    by auto
  then show ?thesis
    by (simp add: m u v intensity_key_def)
qed

subsection \<open>The forward function of the disk lattice\<close>

lemma SDL_func_loop_sum:
  assumes "\<forall>uv\<in>set peaks. x_at x ps (K_peak_intensity (fst uv) (snd uv)) = Inr (I (fst uv) (snd uv))"
  shows "SDL_func_loop ps x kw c lv radius width peaks DP =
     Inr (\<lambda>p. DP p + (\<Sum>uv\<leftarrow>peaks.
        disk_profile (I (fst uv) (snd uv)) radius width
          (dist_to kw (fst c + real_of_int (fst uv) * fst lv + real_of_int (snd uv) * fst (snd (snd lv)))
                      (snd c + real_of_int (fst uv) * fst (snd lv) + real_of_int (snd uv) * snd (snd (snd lv))) p)))"
  using assms
proof (induction peaks arbitrary: DP)
  case Nil
  show ?case by simp
next
  case (Cons pk rest)
  obtain u v where pk: "pk = (u, v)" by (cases pk)
  have a: "x_at x ps (K_peak_intensity u v) = Inr (I u v)"
    using Cons.prems by (simp add: pk)
  have r: "\<forall>uv\<in>set rest. x_at x ps (K_peak_intensity (fst uv) (snd uv)) = Inr (I (fst uv) (snd uv))"
    using Cons.prems by simp
  show ?case
    by (simp add: pk a Let_def Cons.IH[OF r] iadd_def add.assoc)
qed

lemma disk_profile_half: "width \<noteq> 0 \<Longrightarrow> disk_profile i radius width radius = i / 2"
  by (simp add: disk_profile_def)

text \<open>
  C4: when the reads of the parameter vector succeed, the forward function of the
  disk lattice returns the accumulator plus, at every pixel, the sum over the
  retained peaks \<open>(u, v)\<close> of intensity / (1 + exp(min(4 (r - radius) / width, 20))),
  where \<open>r\<close> is the pixel's Euclidean distance from the peak's center
  center + u (ux, uy) + v (vx, vy). At a pixel where \<open>r\<close> equals the radius (and the
  width is not zero) the peak's contribution is exactly intensity / 2.
\<close>

theorem C4_disk_lattice_forward:
  assumes "x_at x (params m) K_x_center = Inr x0" and "x_at x (params m) K_y_center = Inr y0"
    and "x_at x (params m) K_ux = Inr ux" and "x_at x (params m) K_uy = Inr uy"
    and "x_at x (params m) K_vx = Inr vx" and "x_at x (params m) K_vy = Inr vy"
    and "(if refine_radius m then x_at x (params m) K_disk_radius else Inr (disk_radius m)) = Inr radius"
    and "(if refine_width m then x_at x (params m) K_edge_width else Inr (disk_width m)) = Inr width"
    and "\<forall>uv\<in>set (zip (u_inds m) (v_inds m)).
           x_at x (params m) (K_peak_intensity (fst uv) (snd uv)) = Inr (I (fst uv) (snd uv))"
  shows
    "let r = (\<lambda>uv p. sqrt ((xArray (static kw) p - (x0 + real_of_int (fst uv) * ux + real_of_int (snd uv) * vx))\<^sup>2
                         + (yArray (static kw) p - (y0 + real_of_int (fst uv) * uy + real_of_int (snd uv) * vy))\<^sup>2));
         contribution = (\<lambda>uv p. I (fst uv) (snd uv) / (1 + exp (min (4 * (r uv p - radius) / width) 20)))
     in SyntheticDiskLattice_func m DP x kw =
          Inr (\<lambda>p. DP p + (\<Sum>uv\<leftarrow>zip (u_inds m) (v_inds m). contribution uv p)) \<and>
        (\<forall>uv p. width \<noteq> 0 \<and> r uv p = radius \<longrightarrow> contribution uv p = I (fst uv) (snd uv) / 2)"
  unfolding Let_def SyntheticDiskLattice_func_def
  by (simp add: assms(1-8) SDL_func_loop_sum[OF assms(9)] disk_profile_def dist_to_def)

theorem C4_disk_lattice_forward_witness:
  "map_sum id (\<lambda>A. A (1, 0)) (SyntheticDiskLattice_func ex_disk zeros ex_x ex_WPF) = Inr 1 \<and>
   sqrt ((xArray (static ex_WPF) (1, 0) - 0)\<^sup>2 + (yArray (static ex_WPF) (1, 0) - 0)\<^sup>2) = disk_radius ex_disk"
proof -
  have rd: "x_at ex_x (params ex_disk) K_x_center = Inr 0" "x_at ex_x (params ex_disk) K_y_center = Inr 0"
    "x_at ex_x (params ex_disk) K_ux = Inr 1" "x_at ex_x (params ex_disk) K_uy = Inr 0"
    "x_at ex_x (params ex_disk) K_vx = Inr 0" "x_at ex_x (params ex_disk) K_vy = Inr 1"
    "(if refine_radius ex_disk then x_at ex_x (params ex_disk) K_disk_radius else Inr (disk_radius ex_disk)) = Inr 1"
    "(if refine_width ex_disk then x_at ex_x (params ex_disk) K_edge_width else Inr (disk_width ex_disk)) = Inr 4"
    by (simp_all add: ex_disk_def ex_x_def x_at_def dict_get_def at_offset_def)
  have pk: "\<forall>uv\<in>set (zip (u_inds ex_disk) (v_inds ex_disk)).
      x_at ex_x (params ex_disk) (K_peak_intensity (fst uv) (snd uv)) = Inr ((\<lambda>u v. 2) (fst uv) (snd uv))"
    by (simp add: ex_disk_def ex_x_def x_at_def dict_get_def at_offset_def)
  have z: "zip (u_inds ex_disk) (v_inds ex_disk) = [(0, 0)]"
    by (simp add: ex_disk_def)
  from C4_disk_lattice_forward[OF rd pk, where DP = zeros and kw = ex_WPF]
  show ?thesis
    by (simp add: Let_def z zeros_def ex_WPF_def ex_static_def ex_disk_def)
qed

subsection \<open>The incoherent kernel lattice\<close>

lemma arg_at_Inr: "i < length args \<Longrightarrow> arg_at args i = Inr (args ! i)"
  by (simp add: arg_at_def)

lemma KDL_func_loop_sum:
  assumes "i + length peaks + 6 \<le> length args"
  shows "KDL_func_loop m args c lv i peaks DP =
     Inr (\<lambda>p. DP p + (\<Sum>iuv\<leftarrow>enumerate i peaks.
        (args ! (fst iuv + 6)
         * cmod (shifted_kernel m
              (fst c + (real_of_int (fst (snd iuv)) * fst lv) + (real_of_int (snd (snd iuv)) * fst (snd (snd lv))))
              (snd c + (real_of_int (fst (snd iuv)) * fst (snd lv)) + (real_of_int (snd (snd iuv)) * snd (snd (snd lv))))
              p))\<^sup>2))"
  using assms
proof (induction peaks arbitrary: DP i)
  case Nil
  show ?case by simp
next
  case (Cons pk rest)
  obtain u v where pk: "pk = (u, v)" by (cases pk)
  have a: "arg_at args (i + 6) = Inr (args ! (i + 6))"
    using Cons.prems by (simp add: arg_at_Inr)
  have r: "Suc i + length rest + 6 \<le> length args"
    using Cons.prems by simp
  show ?case
    by (simp add: pk a Let_def Cons.IH[OF r] iadd_def add.assoc)
qed

lemma upt_0_1: "[0..<1] = [0]"
  by (simp add: upt_rec)

lemma ex_kdl_eval:
  "map_sum id u_inds ex_kdl = Inr [0]" "map_sum id v_inds ex_kdl = Inr [0]"
  "map_sum id Q_shape ex_kdl = Inr (1, 1)"
  "map_sum id (\<lambda>m. probe_kernelFT m (0, 0)) ex_kdl = Inr 1"
  "map_sum id (\<lambda>m. xqArray m (0, 0)) ex_kdl = Inr 0"
  "map_sum id (\<lambda>m. yqArray m (0, 0)) ex_kdl = Inr 0"
  by (simp_all add: ex_kdl_def KernelDiskLattice_init_def kernel_lattice_init_def
      ex_WPF1_def Let_def mgrid_u_def mgrid_v_def outside_def keep_unmasked_def fft2_def
      fftfreq_def upt_0_1)


lemma sum_Inr_cases:
  assumes "map_sum id f r = Inr v"
  obtains m where "r = Inr m" "f m = v"
proof (cases r)
  case (Inl e)
  from assms[unfolded Inl] show ?thesis by simp
next
  case (Inr m)
  from assms[unfolded Inr] have "f m = v" by simp
  with Inr show ?thesis by (rule that)
qed

lemma unit_shifted_kernel:
  assumes "Q_shape m = (1, 1)" "probe_kernelFT m (0, 0) = 1"
    "xqArray m (0, 0) = 0" "yqArray m (0, 0) = 0"
  shows "shifted_kernel m x y (0, 0) = 1"
  by (simp add: shifted_kernel_def ifft2_def assms upt_0_1)

text \<open>
  C2, as stated, fails: with one peak of intensity 3 and a unit kernel, the forward
  function adds 9 at the pixel, while the sum of intensity times the squared
  magnitude of the shifted kernel is 3.
\<close>

theorem C2_intensity_not_linear:
  "bind_err ex_kdl (\<lambda>m. map_sum id (\<lambda>A. A (0, 0))
       (KernelDiskLattice_local_center_func m zeros [0, 0, 1, 0, 0, 1, 3] ex_WPF1)) = Inr 9 \<and>
   map_sum id (\<lambda>m. spec_incoherent m [0, 0, 1, 0, 0, 1, 3] (0, 0)) ex_kdl = Inr 3"
proof -
  obtain m where m: "ex_kdl = Inr m" and u: "u_inds m = [0]"
    using ex_kdl_eval(1) by (rule sum_Inr_cases)
  have v: "v_inds m = [0]" and q: "Q_shape m = (1, 1)" and k: "probe_kernelFT m (0, 0) = 1"
    and xq: "xqArray m (0, 0) = 0" and yq: "yqArray m (0, 0) = 0"
    using ex_kdl_eval(2-6) by (simp_all add: m)
  have code: "map_sum id (\<lambda>A. A (0, 0))
       (KernelDiskLattice_local_center_func m zeros [0, 0, 1, 0, 0, 1, 3] ex_WPF1) = Inr 9"
    by (simp add: KernelDiskLattice_local_center_func_def arg_at_def u v Let_def iadd_def
        zeros_def unit_shifted_kernel[OF q k xq yq])
  have spec: "spec_incoherent m [0, 0, 1, 0, 0, 1, 3] (0, 0) = 3"
    by (simp add: spec_incoherent_def u v enumerate_eq_zip upt_0_1
        unit_shifted_kernel[OF q k xq yq])
  show ?thesis
    by (simp add: m code spec)
qed

text \<open>
  C2, amended: when the positional arguments hold a value for every retained peak,
  the forward function of the incoherent kernel lattice returns the accumulator
  plus the sum over the retained peaks of the square of (intensity parameter times
  the magnitude of the Fourier-shifted probe kernel): the intensity parameter
  enters squared, multiplying the squared magnitude of the shifted kernel.
\<close>

theorem C2_incoherent_contribution:
  assumes "length (zip (u_inds m) (v_inds m)) + 6 \<le> length args"
  shows "KernelDiskLattice_local_center_func m DP args kw =
     Inr (\<lambda>p. DP p + (\<Sum>iuv\<leftarrow>enumerate 0 (zip (u_inds m) (v_inds m)).
        (args ! (fst iuv + 6))\<^sup>2
        * (cmod (shifted_kernel m (peak_x args (snd iuv)) (peak_y args (snd iuv)) p))\<^sup>2))"
proof -
  have l: "0 + length (zip (u_inds m) (v_inds m)) + 6 \<le> length args"
    using assms by simp
  have a: "arg_at args 0 = Inr (args ! 0)" "arg_at args 1 = Inr (args ! 1)"
    "arg_at args 2 = Inr (args ! 2)" "arg_at args 3 = Inr (args ! 3)"
    "arg_at args 4 = Inr (args ! 4)" "arg_at args 5 = Inr (args ! 5)"
    using assms by (auto simp: arg_at_def)
  show ?thesis
    unfolding KernelDiskLattice_local_center_func_def a
    by (simp add: KDL_func_loop_sum[OF l] peak_x_def peak_y_def power_mult_distrib)
qed

theorem C2_incoherent_contribution_witness:
  "bind_err ex_kdl (\<lambda>m. map_sum id (\<lambda>A. A (0, 0))
       (KernelDiskLattice_local_center_func m zeros [0, 0, 1, 0, 0, 1, 3] ex_WPF1)) = Inr 9"
proof -
  obtain m where m: "ex_kdl = Inr m" and u: "u_inds m = [0]"
    using ex_kdl_eval(1) by (rule sum_Inr_cases)
  have v: "v_inds m = [0]" and q: "Q_shape m = (1, 1)" and k: "probe_kernelFT m (0, 0) = 1"
    and xq: "xqArray m (0, 0) = 0" and yq: "yqArray m (0, 0) = 0"
    using ex_kdl_eval(2-6) by (simp_all add: m)
  have l: "length (zip (u_inds m) (v_inds m)) + 6 \<le> length [0, 0, 1, 0, 0, 1, 3 :: real]"
    by (simp add: u v)
  from C2_incoherent_contribution[OF l, of zeros ex_WPF1]
  show ?thesis
    by (simp add: m u v zeros_def enumerate_eq_zip upt_0_1 unit_shifted_kernel[OF q k xq yq])
qed

subsection \<open>The coherent kernel lattice\<close>

lemma COK_func_loop_sum:
  assumes "2 * i + 2 * length peaks + 6 \<le> length args"
  shows "COK_func_loop m args c lv i peaks localDP =
     Inr (\<lambda>p. localDP p + (\<Sum>iuv\<leftarrow>enumerate i peaks.
        complex_of_real (args ! (2 * fst iuv + 6))
        * exp (\<i> * complex_of_real (args ! (2 * fst iuv + 7)))
        * complex_of_real (cmod (shifted_kernel m
              (fst c + (real_of_int (fst (snd iuv)) * fst lv) + (real_of_int (snd (snd iuv)) * fst (snd (snd lv))))
              (snd c + (real_of_int (fst (snd iuv)) * fst (snd lv)) + (real_of_int (snd (snd iuv)) * snd (snd (snd lv))))
              p))))"
  using assms
proof (induction peaks arbitrary: localDP i)
  case Nil
  show ?case by simp
next
  case (Cons pk rest)
  obtain u v where pk: "pk = (u, v)" by (cases pk)
  have a: "arg_at args (2 * i + 6) = Inr (args ! (2 * i + 6))"
    "arg_at args (2 * i + 7) = Inr (args ! (2 * i + 7))"
    using Cons.prems by (auto simp: arg_at_def)
  have r: "2 * Suc i + 2 * length rest + 6 \<le> length args"
    using Cons.prems by simp
  show ?case
    by (simp add: pk a Let_def Cons.IH[OF r] add.assoc)
qed

lemma ex_cok1_eval:
  "map_sum id u_inds ex_cok1 = Inr [0]" "map_sum id v_inds ex_cok1 = Inr [0]"
  "map_sum id Q_shape ex_cok1 = Inr (1, 1)"
  "map_sum id (\<lambda>m. probe_kernelFT m (0, 0)) ex_cok1 = Inr 1"
  "map_sum id (\<lambda>m. xqArray m (0, 0)) ex_cok1 = Inr 0"
  "map_sum id (\<lambda>m. yqArray m (0, 0)) ex_cok1 = Inr 0"
  by (simp_all add: ex_cok1_def ComplexOverlapKernelDiskLattice_init_def kernel_lattice_init_def
      ex_WPF1_def Let_def mgrid_u_def mgrid_v_def outside_def keep_unmasked_def fft2_def
      fftfreq_def upt_0_1)

text \<open>
  C3, as stated, fails: with one peak of intensity 4, phase 0 and a unit kernel, the
  forward function adds 16 at the pixel, while the squared magnitude of the sum of
  the amplitudes with the square root of the intensity is 4.
\<close>

theorem C3_amplitude_not_square_root:
  "bind_err ex_cok1 (\<lambda>m. map_sum id (\<lambda>A. A (0, 0))
       (ComplexOverlapKernelDiskLattice_local_center_func m zeros [0, 0, 1, 0, 0, 1, 4, 0] ex_WPF1))
     = Inr 16 \<and>
   map_sum id (\<lambda>m. spec_coherent m [0, 0, 1, 0, 0, 1, 4, 0] (0, 0)) ex_cok1 = Inr 4"
proof -
  obtain m where m: "ex_cok1 = Inr m" and u: "u_inds m = [0]"
    using ex_cok1_eval(1) by (rule sum_Inr_cases)
  have v: "v_inds m = [0]" and q: "Q_shape m = (1, 1)" and k: "probe_kernelFT m (0, 0) = 1"
    and xq: "xqArray m (0, 0) = 0" and yq: "yqArray m (0, 0) = 0"
    using ex_cok1_eval(2-6) by (simp_all add: m)
  have code: "map_sum id (\<lambda>A. A (0, 0))
       (ComplexOverlapKernelDiskLattice_local_center_func m zeros [0, 0, 1, 0, 0, 1, 4, 0] ex_WPF1)
     = Inr 16"
    by (simp add: ComplexOverlapKernelDiskLattice_local_center_func_def arg_at_def u v Let_def
        iadd_def zeros_def unit_shifted_kernel[OF q k xq yq])
  have "sqrt 4 = 2"
    using real_sqrt_abs[of 2] by simp
  then have spec: "spec_coherent m [0, 0, 1, 0, 0, 1, 4, 0] (0, 0) = 4"
    by (simp add: spec_coherent_def u v enumerate_eq_zip upt_0_1
        unit_shifted_kernel[OF q k xq yq])
  show ?thesis
    by (simp add: m code spec)
qed

text \<open>
  C3, amended: when the positional arguments hold an intensity and a phase for every
  retained peak, each peak contributes the complex amplitude
  intensity * exp(i phase) * |shifted kernel|, with the intensity parameter itself
  and not its square root; the amplitudes are summed over all peaks in the complex
  domain, and the magnitude of the sum is squared once to give what is added to the
  accumulator.
\<close>

theorem C3_coherent_contribution:
  assumes "2 * length (zip (u_inds m) (v_inds m)) + 6 \<le> length args"
  shows "ComplexOverlapKernelDiskLattice_local_center_func m DP args kw =
     Inr (\<lambda>p. DP p + (cmod (\<Sum>iuv\<leftarrow>enumerate 0 (zip (u_inds m) (v_inds m)).
        complex_of_real (args ! (2 * fst iuv + 6))
        * exp (\<i> * complex_of_real (args ! (2 * fst iuv + 7)))
        * complex_of_real
            (cmod (shifted_kernel m (peak_x args (snd iuv)) (peak_y args (snd iuv)) p))))\<^sup>2)"
proof -
  have l: "2 * 0 + 2 * length (zip (u_inds m) (v_inds m)) + 6 \<le> length args"
    using assms by simp
  have a: "arg_at args 0 = Inr (args ! 0)" "arg_at args 1 = Inr (args ! 1)"
    "arg_at args 2 = Inr (args ! 2)" "arg_at args 3 = Inr (args ! 3)"
    "arg_at args 4 = Inr (args ! 4)" "arg_at args 5 = Inr (args ! 5)"
    using assms by (auto simp: arg_at_def)
  show ?thesis
    unfolding ComplexOverlapKernelDiskLattice_local_center_func_def a
    by (simp add: COK_func_loop_sum[OF l] peak_x_def peak_y_def iadd_def)
qed

theorem C3_coherent_contribution_witness:
  "bind_err ex_cok1 (\<lambda>m. map_sum id (\<lambda>A. A (0, 0))
       (ComplexOverlapKernelDiskLattice_local_center_func m zeros [0, 0, 1, 0, 0, 1, 4, 0] ex_WPF1))
     = Inr 16"
proof -
  obtain m where m: "ex_cok1 = Inr m" and u: "u_inds m = [0]"
    using ex_cok1_eval(1) by (rule sum_Inr_cases)
  have v: "v_inds m = [0]" and q: "Q_shape m = (1, 1)" and k: "probe_kernelFT m (0, 0) = 1"
    and xq: "xqArray m (0, 0) = 0" and yq: "yqArray m (0, 0) = 0"
    using ex_cok1_eval(2-6) by (simp_all add: m)
  have l: "2 * length (zip (u_inds m) (v_inds m)) + 6 \<le> length [0, 0, 1, 0, 0, 1, 4, 0 :: real]"
    by (simp add: u v)
  from C3_coherent_contribution[OF l, of zeros ex_WPF1]
  show ?thesis
    by (simp add: m u v zeros_def enumerate_eq_zip upt_0_1 unit_shifted_kernel[OF q k xq yq])
qed

subsection \<open>The Jacobian of the disk lattice\<close>

lemma ex_disk_forward:
  "SyntheticDiskLattice_func ex_disk zeros (ex_x[0 := t]) ex_WPF =
     Inr (\<lambda>p. disk_profile 2 1 4 (dist_to ex_WPF t 0 p))"
  by (simp add: SyntheticDiskLattice_func_def ex_disk_def ex_x_def x_at_def dict_get_def
      at_offset_def Let_def iadd_def zeros_def)

lemma ex_disk_forward_near:
  assumes "\<bar>t\<bar> < 1"
  shows "disk_profile 2 1 4 (dist_to ex_WPF t 0 (1, 0)) = 2 / (1 + exp (- t))"
proof -
  have "dist_to ex_WPF t 0 (1, 0) = \<bar>1 - t\<bar>"
    by (simp add: dist_to_def ex_WPF_def ex_static_def)
  also have "\<dots> = 1 - t" using assms by simp
  finally have d: "dist_to ex_WPF t 0 (1, 0) = 1 - t" .
  have m: "min (- t) 20 = - t" using assms by simp
  have "disk_profile 2 1 4 (dist_to ex_WPF t 0 (1, 0)) = 2 / (1 + exp (min (- t) 20))"
    unfolding disk_profile_def d by simp
  then show ?thesis
    unfolding m .
qed

lemma logistic_deriv: "((\<lambda>t::real. 2 / (1 + exp (- t))) has_real_derivative 1 / 2) (at 0)"
proof -
  have pos: "1 + exp (- (0::real)) \<noteq> 0" by simp
  have "((\<lambda>t::real. 2 / (1 + exp (- t))) has_real_derivative
          (0 * (1 + exp (- 0)) - 2 * (exp (- 0) * (- 1))) / ((1 + exp (- 0)) * (1 + exp (- 0)))) (at 0)"
    by (rule derivative_eq_intros refl pos | simp)+
  then show ?thesis by simp
qed

lemma ex_disk_forward_deriv:
  "((\<lambda>t. projr (SyntheticDiskLattice_func ex_disk zeros (ex_x[0 := t]) ex_WPF) (1, 0))
      has_real_derivative 1 / 2) (at 0)"
proof -
  have ev: "eventually (\<lambda>t. 2 / (1 + exp (- t)) =
              projr (SyntheticDiskLattice_func ex_disk zeros (ex_x[0 := t]) ex_WPF) (1, 0)) (nhds 0)"
  proof (rule eventually_nhds_in_open[of "{- 1 <..< 1}" 0, THEN eventually_mono])
    show "open {- 1 <..< (1::real)}" by simp
    show "(0::real) \<in> {- 1 <..< 1}" by simp
    fix t :: real
    assume "t \<in> {- 1 <..< 1}"
    then have "\<bar>t\<bar> < 1" by auto
    then show "2 / (1 + exp (- t)) =
              projr (SyntheticDiskLattice_func ex_disk zeros (ex_x[0 := t]) ex_WPF) (1, 0)"
      by (simp only: ex_disk_forward sum.sel ex_disk_forward_near)
  qed
  show ?thesis
    using logistic_deriv DERIV_cong_ev[OF refl ev refl] by simp
qed

lemma ex_disk_jacobian_center:
  "map_sum id (\<lambda>J. J (1, 0) 0) (SyntheticDiskLattice_jacobian ex_disk zerosJ ex_x ex_WPF) = Inr 1"
  by (simp add: SyntheticDiskLattice_jacobian_def ex_disk_def ex_x_def x_at_def dict_get_def
      at_offset_def Let_def zerosJ_def ex_WPF_def ex_static_def euclid_distance_def
      J_iadd_def col_of_def col_iadd_def jac_dx_def jac_dy_def jac_dI_def top_exp_def r_disk_def
      dist_to_def Parameter1_def set_params_def)


lemma ex_disk_forward_intensity:
  "projr (SyntheticDiskLattice_func ex_disk zeros (ex_x[6 := t]) ex_WPF) (1, 0) = t / 2"
  by (simp add: SyntheticDiskLattice_func_def ex_disk_def ex_x_def x_at_def dict_get_def
      at_offset_def Let_def iadd_def zeros_def disk_profile_def dist_to_def ex_WPF_def
      ex_static_def)

lemma ex_disk_jacobian_intensity:
  "map_sum id (\<lambda>J. J (1, 0) 6) (SyntheticDiskLattice_jacobian ex_disk zerosJ ex_x ex_WPF) = Inr (1 / 2)"
  by (simp add: SyntheticDiskLattice_jacobian_def ex_disk_def ex_x_def x_at_def dict_get_def
      at_offset_def Let_def zerosJ_def ex_WPF_def ex_static_def euclid_distance_def
      J_iadd_def col_of_def col_iadd_def jac_dx_def jac_dy_def jac_dI_def top_exp_def r_disk_def
      dist_to_def Parameter1_def set_params_def)

text \<open>
  C5 asks that every column of the disk lattice's analytic Jacobian equals the
  partial derivative of the forward contribution. The center columns do not. For
  the lattice with the single peak (0, 0), radius 1, width 4, center (0, 0) and peak
  intensity 2, at the pixel (1, 0): the forward value has derivative 1/2 with
  respect to the x center, and the Jacobian's x-center column holds 1 (the array
  \<^verbatim>\<open>dx\<close>, which already contains the factor \<^verbatim>\<open>disk_intensity\<close>, is multiplied by
  \<^verbatim>\<open>disk_intensity\<close> once more when it is added to the column). At the same
  point the intensity column holds the derivative with respect to the intensity,
  1/2.
\<close>

theorem C5_center_column_twice_the_derivative:
  "((\<lambda>t. projr (SyntheticDiskLattice_func ex_disk zeros (ex_x[0 := t]) ex_WPF) (1, 0))
      has_real_derivative 1 / 2) (at (ex_x ! 0)) \<and>
   map_sum id (\<lambda>J. J (1, 0) 0) (SyntheticDiskLattice_jacobian ex_disk zerosJ ex_x ex_WPF) = Inr 1 \<and>
   ((\<lambda>t. projr (SyntheticDiskLattice_func ex_disk zeros (ex_x[6 := t]) ex_WPF) (1, 0))
      has_real_derivative 1 / 2) (at (ex_x ! 6)) \<and>
   map_sum id (\<lambda>J. J (1, 0) 6) (SyntheticDiskLattice_jacobian ex_disk zerosJ ex_x ex_WPF) = Inr (1 / 2)"
proof -
  have x0: "ex_x ! 0 = 0" by (simp add: ex_x_def)
  have "((\<lambda>t::real. t / 2) has_real_derivative 1 / 2) (at (ex_x ! 6))"
    by (rule derivative_eq_intros refl | simp)+
  then have i: "((\<lambda>t. projr (SyntheticDiskLattice_func ex_disk zeros (ex_x[6 := t]) ex_WPF) (1, 0))
      has_real_derivative 1 / 2) (at (ex_x ! 6))"
    by (simp only: ex_disk_forward_intensity)
  show ?thesis
    unfolding x0
    by (intro conjI ex_disk_forward_deriv ex_disk_jacobian_center i ex_disk_jacobian_intensity)
qed

end
